theory Spec2Isabelle
  imports Main "HOL-Library.Word"
begin

section \<open>Python values, exceptions and results\<close>

text \<open>
  The manager stores whatever the secrets dictionary holds, so the credentials are
  dynamically typed values. Only the shapes the code distinguishes are modelled: the
  sequence types tested by \<open>isinstance(v, (tuple, list))\<close>, and scalars.
\<close>

datatype pyval =
    PNone
  | PStr string
  | PInt int
  | PList "pyval list"
  | PTuple "pyval list"

text \<open>\<open>isinstance(v, (tuple, list))\<close>\<close>

fun is_sequence :: "pyval \<Rightarrow> bool" where
  "is_sequence (PList xs) = True"
| "is_sequence (PTuple xs) = True"
| "is_sequence v = False"

text \<open>The elements of a sequence (\<open>len\<close> is their number, indexing reads them).\<close>

fun items :: "pyval \<Rightarrow> pyval list" where
  "items (PList xs) = xs"
| "items (PTuple xs) = xs"
| "items v = []"

text \<open>Python truthiness, as used by \<open>not self.ssid\<close> and \<open>secrets.get(k)\<close>.\<close>

fun truthy :: "pyval \<Rightarrow> bool" where
  "truthy PNone = False"
| "truthy (PStr s) = (s \<noteq> [])"
| "truthy (PInt i) = (i \<noteq> 0)"
| "truthy (PList xs) = (xs \<noteq> [])"
| "truthy (PTuple xs) = (xs \<noteq> [])"

text \<open>
  Exceptions, by class. \<open>StructError\<close> is the buffer-size error of \<open>struct.unpack\<close>;
  \<open>OtherError\<close> stands for any class not listed.
\<close>

datatype exc =
    ValueError string
  | RuntimeError string
  | NotImplementedError string
  | TypeError string
  | KeyError string
  | IndexError
  | AssertionError
  | AttributeError
  | ConnectionError string
  | OSError string
  | TimeoutError
  | StructError
  | OverflowError
  | OtherError string

text \<open>
  Which exceptions the clause \<open>except (ValueError, RuntimeError)\<close> catches: instances
  of the two classes and of their subclasses (\<open>NotImplementedError\<close> derives from
  \<open>RuntimeError\<close>).
\<close>

fun is_retry_error :: "exc \<Rightarrow> bool" where
  "is_retry_error (ValueError msg) = True"
| "is_retry_error (RuntimeError msg) = True"
| "is_retry_error (NotImplementedError msg) = True"
| "is_retry_error e = False"

text \<open>
  A call either raises (\<open>Inl\<close>) or returns (\<open>Inr\<close>); a call that contains the
  connection loop may also never return, which is \<open>None\<close>.
\<close>

type_synonym 'a result = "(exc + 'a) option"

section \<open>The manager object and its environment\<close>

text \<open>
  The status indicator: a device is either absent (\<open>None\<close>), or an object whose
  truthiness and whether it has a \<open>color\<close> attribute decide what \<open>pixel_status\<close> does.
\<close>

record pixel_device =
  dev_truthy :: bool
  has_color :: bool

datatype status_value = Intensity int | RGB int int int

datatype socketpool = SocketPool

datatype session = Session

record manager =
  debug :: bool
  ssid :: pyval
  password :: pyval
  connection_type :: int
  statuspix :: "pixel_device option"
  ap_index :: nat
  pool :: "socketpool option"
  requests :: "session option"
  ent_ssid :: pyval
  ent_ident :: pyval
  ent_user :: "pyval option"
  ent_password :: "pyval option"

definition NORMAL :: int where
  "NORMAL = 1"

definition ENTERPRISE :: int where
  "ENTERPRISE = 2"

text \<open>The object \<open>radio.ap_info\<close> returns while associated.\<close>

record network =
  net_ssid :: string
  rssi :: int

text \<open>What one call of \<open>radio.connect(ssid, password)\<close> does.\<close>

datatype connect_outcome =
    Associates network
  | ReturnsUnassociated
  | Fails exc

datatype verb = GET | POST | PUT | PATCH | DELETE

text \<open>
  A calendar time, as \<open>time.localtime\<close> returns it: the calendar time of an epoch
  second, kept symbolic in that second.
\<close>

datatype struct_time = Localtime int

type_synonym byte = "8 word"

text \<open>Calls the manager makes on its collaborators, in the order it makes them.\<close>

datatype event =
    PixelColor status_value
  | PixelFill status_value
  | PrintMac
  | ScanStart
  | PrintAccessPoint string int
  | ScanStop
  | PrintConnecting
  | RadioConnect pyval pyval
  | PrintFailed exc
  | PoolCreated
  | SessionCreated
  | HttpRequest verb string "(string \<times> pyval) list"
  | GetAddrInfo string int
  | RadioPing string
  | PoolClose
  | SocketOpen
  | SetTimeout int
  | SendTo "byte list" string int
  | RecvFromInto nat
  | SocketClose
  | PrintTimeSet struct_time

text \<open>
  The environment: the radio's association (\<open>radio.ap_info\<close>), what the coming calls of
  \<open>radio.connect\<close> will do, the networks a scan finds, the radio's address, the
  real-time clock, and the calls made so far.
\<close>

record world =
  ap_info :: "network option"
  connect_script :: "connect_outcome list"
  visible_aps :: "network list"
  ipv4_address :: string
  rtc_datetime :: "struct_time option"
  trace :: "event list"

definition emit :: "event list \<Rightarrow> world \<Rightarrow> world" where
  "emit es w = w\<lparr>trace := trace w @ es\<rparr>"

section \<open>The status indicator\<close>

text \<open>
  \<open>pixel_status\<close>: nothing when the device is absent or falsy, else the \<open>color\<close>
  attribute is assigned when the device has one, else \<open>fill\<close> is called.
\<close>

definition pixel_events :: "manager \<Rightarrow> status_value \<Rightarrow> event list" where
  "pixel_events m v =
     (case statuspix m of
        None \<Rightarrow> []
      | Some d \<Rightarrow>
          if dev_truthy d
          then (if has_color d then [PixelColor v] else [PixelFill v])
          else [])"

definition pixel_status :: "manager \<Rightarrow> status_value \<Rightarrow> world \<Rightarrow> world" where
  "pixel_status m v w = emit (pixel_events m v) w"

section \<open>Credential rotation\<close>

text \<open>
  \<open>_get_next_ap\<close>. The result is the outcome of the call together with the manager
  after it, also when the call raises.
\<close>

definition get_next_ap :: "manager \<Rightarrow> (exc + pyval \<times> pyval) \<times> manager" where
  "get_next_ap m =
     (if is_sequence (ssid m) \<and> is_sequence (password m) then
        if \<not> truthy (ssid m) \<or> \<not> truthy (password m) then
          (Inl (ValueError ''SSID and Password should contain at least 1 value''), m)
        else if length (items (ssid m)) \<noteq> length (items (password m)) then
          (Inl (ValueError ''The length of SSIDs and Passwords should match''), m)
        else if ap_index m < length (items (ssid m)) then
          (let access_point = (items (ssid m) ! ap_index m, items (password m) ! ap_index m);
               m1 = m\<lparr>ap_index := ap_index m + 1\<rparr>;
               m2 = (if ap_index m1 \<ge> length (items (ssid m1)) then m1\<lparr>ap_index := 0\<rparr> else m1)
           in (Inr access_point, m2))
        else (Inl IndexError, m)
      else if is_sequence (ssid m) \<or> is_sequence (password m) then
        (Inl (NotImplementedError
           ''If using multiple passwords, both SSID and Password should be lists or tuples''), m)
      else (Inr (ssid m, password m), m))"

text \<open>Consecutive calls of \<open>_get_next_ap\<close>, collecting what they return.\<close>

fun get_next_ap_times :: "nat \<Rightarrow> manager \<Rightarrow> (exc + (pyval \<times> pyval) list) \<times> manager" where
  "get_next_ap_times 0 m = (Inr [], m)"
| "get_next_ap_times (Suc n) m =
     (case get_next_ap m of
        (Inl e, m1) \<Rightarrow> (Inl e, m1)
      | (Inr ap, m1) \<Rightarrow>
          (case get_next_ap_times n m1 of
             (Inl e, m2) \<Rightarrow> (Inl e, m2)
           | (Inr aps, m2) \<Rightarrow> (Inr (ap # aps), m2)))"

section \<open>Sequencing calls\<close>

text \<open>
  \<open>and_then r k\<close> continues with \<open>k\<close> when the call \<open>r\<close> returned; an exception
  propagates, and so does a call that never returns.
\<close>

definition and_then ::
  "'a result \<times> manager \<times> world \<Rightarrow> ('a \<Rightarrow> manager \<Rightarrow> world \<Rightarrow> 'b result \<times> manager \<times> world)
     \<Rightarrow> 'b result \<times> manager \<times> world" where
  "and_then r k =
     (case r of
        (Some (Inr v), m, w) \<Rightarrow> k v m w
      | (Some (Inl e), m, w) \<Rightarrow> (Some (Inl e), m, w)
      | (None, m, w) \<Rightarrow> (None, m, w))"

section \<open>Construction\<close>

text \<open>\<open>secrets.get(key)\<close> and \<open>secrets.get(key, None)\<close>.\<close>

definition dict_get :: "(string \<rightharpoonup> pyval) \<Rightarrow> string \<Rightarrow> pyval" where
  "dict_get secrets k = (case secrets k of None \<Rightarrow> PNone | Some v \<Rightarrow> v)"

text \<open>
  \<open>__init__\<close>. \<open>secrets["ssid"]\<close> raises \<open>KeyError\<close> when the key is missing, before
  anything else is done; the radio is the \<open>world\<close>.
\<close>

definition init ::
  "world \<Rightarrow> (string \<rightharpoonup> pyval) \<Rightarrow> pixel_device option \<Rightarrow> int \<Rightarrow> bool
     \<Rightarrow> (exc + manager) \<times> world" where
  "init w secrets status_pixel conn_type dbg =
     (case secrets ''ssid'' of
        None \<Rightarrow> (Inl (KeyError ''ssid''), w)
      | Some s \<Rightarrow>
          (let m = \<lparr> debug = dbg,
                     ssid = s,
                     password = dict_get secrets ''password'',
                     connection_type = conn_type,
                     statuspix = status_pixel,
                     ap_index = 0,
                     pool = None,
                     requests = None,
                     ent_ssid = (if truthy (dict_get secrets ''ent_ssid'')
                                 then dict_get secrets ''ent_ssid'' else s),
                     ent_ident = (if truthy (dict_get secrets ''ent_ident'')
                                  then dict_get secrets ''ent_ident'' else PStr []),
                     ent_user = (if truthy (dict_get secrets ''ent_user'')
                                 then Some (dict_get secrets ''ent_user'') else None),
                     ent_password = (if truthy (dict_get secrets ''ent_password'')
                                     then Some (dict_get secrets ''ent_password'') else None) \<rparr>
           in (Inr m, pixel_status m (Intensity 0) w)))"

section \<open>Connecting\<close>

text \<open>
  The loop of \<open>connect_normal\<close>, for the pair \<open>(s, p)\<close> fetched before it. Each pass
  takes the next outcome of \<open>radio.connect\<close> from the world; when none is left and the
  radio is still not associated, the loop has not returned (\<open>None\<close>).
\<close>

function connect_loop ::
  "manager \<Rightarrow> pyval \<Rightarrow> pyval \<Rightarrow> nat \<Rightarrow> world \<Rightarrow> unit result \<times> world" where
  "connect_loop m s p failure_count w =
     (if ap_info w \<noteq> None then (Some (Inr ()), w)
      else
        (case connect_script w of
           [] \<Rightarrow> (None, w)
         | outcome # rest \<Rightarrow>
             (let w1 = (if debug m then emit [PrintConnecting] w else w);
                  w2 = pixel_status m (RGB 100 0 0) w1;
                  w3 = emit [RadioConnect s p] (w2\<lparr>connect_script := rest\<rparr>)
              in case outcome of
                   Fails e \<Rightarrow>
                     if is_retry_error e
                     then connect_loop m s p (failure_count + 1) (emit [PrintFailed e] w3)
                     else (Some (Inl e), w3)
                 | ReturnsUnassociated \<Rightarrow>
                     connect_loop m s p 0 (pixel_status m (RGB 0 100 0) w3)
                 | Associates n \<Rightarrow>
                     connect_loop m s p 0
                       (pixel_status m (RGB 0 100 0) (w3\<lparr>ap_info := Some n\<rparr>)))))"
  by pat_completeness auto
termination
  by (relation "measure (\<lambda>(m, s, p, failure_count, w). length (connect_script w))")
     (auto simp: emit_def pixel_status_def)

text \<open>\<open>connect_normal\<close>: one credential fetch, then the loop.\<close>

definition connect_normal :: "manager \<Rightarrow> world \<Rightarrow> unit result \<times> manager \<times> world" where
  "connect_normal m w =
     (case get_next_ap m of
        (Inl e, m1) \<Rightarrow> (Some (Inl e), m1, w)
      | (Inr (s, p), m1) \<Rightarrow>
          (case connect_loop m1 s p 0 w of (r, w1) \<Rightarrow> (r, m1, w1)))"

text \<open>\<open>connect_enterprise\<close> raises at once.\<close>

definition connect_enterprise :: "manager \<Rightarrow> world \<Rightarrow> unit result \<times> manager \<times> world" where
  "connect_enterprise m w = (Some (Inl (NotImplementedError [])), m, w)"

text \<open>
  \<open>connect\<close>: the scan report in debug mode, the connection by type, then a new socket
  pool and HTTP session.
\<close>

definition connect :: "manager \<Rightarrow> world \<Rightarrow> unit result \<times> manager \<times> world" where
  "connect m w =
     (let w1 = (if debug m
                then emit ([PrintMac, ScanStart]
                           @ map (\<lambda>access_pt. PrintAccessPoint (net_ssid access_pt) (rssi access_pt))
                               (visible_aps w)
                           @ [ScanStop]) w
                else w)
      in and_then
           (if connection_type m = NORMAL then connect_normal m w1
            else if connection_type m = ENTERPRISE then connect_enterprise m w1
            else (Some (Inl (TypeError ''Invalid WiFi connection type specified'')), m, w1))
           (\<lambda>u m2 w2.
              (Some (Inr ()),
               m2\<lparr>pool := Some SocketPool, requests := Some Session\<rparr>,
               emit [PoolCreated, SessionCreated] w2)))"

text \<open>
  The two lines that open every public operation:
  \<open>if not self.radio.ap_info: self.connect()\<close>.
\<close>

definition ensure_connected :: "manager \<Rightarrow> world \<Rightarrow> unit result \<times> manager \<times> world" where
  "ensure_connected m w = (if ap_info w = None then connect m w else (Some (Inr ()), m, w))"

section \<open>Requests\<close>

text \<open>
  Each verb takes the outcome of the session's call as \<open>reply\<close>: the exception it
  raises or the response it returns.
\<close>

text \<open>\<open>get\<close>\<close>

definition get ::
  "manager \<Rightarrow> world \<Rightarrow> string \<Rightarrow> (string \<times> pyval) list \<Rightarrow> exc + 'r
     \<Rightarrow> 'r result \<times> manager \<times> world" where
  "get m w url kw reply =
     and_then (ensure_connected m w)
       (\<lambda>u m1 w1.
          if requests m1 = None then (Some (Inl AssertionError), m1, w1)
          else
            (let w2 = pixel_status m1 (RGB 0 0 100) w1;
                 w3 = emit [HttpRequest GET url kw] w2
             in case reply of
                  Inl e \<Rightarrow> (Some (Inl e), m1, w3)
                | Inr return_val \<Rightarrow> (Some (Inr return_val), m1, pixel_status m1 (Intensity 0) w3)))"

text \<open>\<open>post\<close>: there is no call of \<open>pixel_status(0)\<close> after the request.\<close>

definition post ::
  "manager \<Rightarrow> world \<Rightarrow> string \<Rightarrow> (string \<times> pyval) list \<Rightarrow> exc + 'r
     \<Rightarrow> 'r result \<times> manager \<times> world" where
  "post m w url kw reply =
     and_then (ensure_connected m w)
       (\<lambda>u m1 w1.
          if requests m1 = None then (Some (Inl AssertionError), m1, w1)
          else
            (let w2 = pixel_status m1 (RGB 0 0 100) w1;
                 w3 = emit [HttpRequest POST url kw] w2
             in case reply of
                  Inl e \<Rightarrow> (Some (Inl e), m1, w3)
                | Inr return_val \<Rightarrow> (Some (Inr return_val), m1, w3)))"

text \<open>\<open>put\<close>\<close>

definition put ::
  "manager \<Rightarrow> world \<Rightarrow> string \<Rightarrow> (string \<times> pyval) list \<Rightarrow> exc + 'r
     \<Rightarrow> 'r result \<times> manager \<times> world" where
  "put m w url kw reply =
     and_then (ensure_connected m w)
       (\<lambda>u m1 w1.
          if requests m1 = None then (Some (Inl AssertionError), m1, w1)
          else
            (let w2 = pixel_status m1 (RGB 0 0 100) w1;
                 w3 = emit [HttpRequest PUT url kw] w2
             in case reply of
                  Inl e \<Rightarrow> (Some (Inl e), m1, w3)
                | Inr return_val \<Rightarrow> (Some (Inr return_val), m1, pixel_status m1 (Intensity 0) w3)))"

text \<open>\<open>patch\<close>\<close>

definition patch ::
  "manager \<Rightarrow> world \<Rightarrow> string \<Rightarrow> (string \<times> pyval) list \<Rightarrow> exc + 'r
     \<Rightarrow> 'r result \<times> manager \<times> world" where
  "patch m w url kw reply =
     and_then (ensure_connected m w)
       (\<lambda>u m1 w1.
          if requests m1 = None then (Some (Inl AssertionError), m1, w1)
          else
            (let w2 = pixel_status m1 (RGB 0 0 100) w1;
                 w3 = emit [HttpRequest PATCH url kw] w2
             in case reply of
                  Inl e \<Rightarrow> (Some (Inl e), m1, w3)
                | Inr return_val \<Rightarrow> (Some (Inr return_val), m1, pixel_status m1 (Intensity 0) w3)))"

text \<open>\<open>delete\<close>\<close>

definition delete ::
  "manager \<Rightarrow> world \<Rightarrow> string \<Rightarrow> (string \<times> pyval) list \<Rightarrow> exc + 'r
     \<Rightarrow> 'r result \<times> manager \<times> world" where
  "delete m w url kw reply =
     and_then (ensure_connected m w)
       (\<lambda>u m1 w1.
          if requests m1 = None then (Some (Inl AssertionError), m1, w1)
          else
            (let w2 = pixel_status m1 (RGB 0 0 100) w1;
                 w3 = emit [HttpRequest DELETE url kw] w2
             in case reply of
                  Inl e \<Rightarrow> (Some (Inl e), m1, w3)
                | Inr return_val \<Rightarrow> (Some (Inr return_val), m1, pixel_status m1 (Intensity 0) w3)))"

section \<open>Reading the radio\<close>

text \<open>
  \<open>ping\<close>. \<open>addrinfo\<close> is the outcome of \<open>getaddrinfo(host, 80)\<close>, as the address
  string (\<open>[4][0]\<close>) of each record; \<open>parsed\<close> that of \<open>ipaddress.ip_address\<close> on
  the first of them; \<open>echo\<close> that of \<open>radio.ping\<close>, to which the timeout is passed on.
\<close>

definition ping ::
  "manager \<Rightarrow> world \<Rightarrow> string \<Rightarrow> exc + string list \<Rightarrow> exc + unit \<Rightarrow> exc + 'f
     \<Rightarrow> 'f result \<times> manager \<times> world" where
  "ping m w host addrinfo parsed echo =
     and_then (ensure_connected m w)
       (\<lambda>u m1 w1.
          if pool m1 = None then (Some (Inl AssertionError), m1, w1)
          else
            (let w2 = pixel_status m1 (RGB 0 0 100) w1;
                 w3 = emit [GetAddrInfo host 80] w2
             in case addrinfo of
                  Inl e \<Rightarrow> (Some (Inl e), m1, w3)
                | Inr [] \<Rightarrow> (Some (Inl IndexError), m1, w3)
                | Inr (address # others) \<Rightarrow>
                    (case parsed of
                       Inl e \<Rightarrow> (Some (Inl e), m1, w3)
                     | Inr ip \<Rightarrow>
                         (let w4 = emit [RadioPing address] w3
                          in case echo of
                               Inl e \<Rightarrow> (Some (Inl e), m1, w4)
                             | Inr response_time \<Rightarrow>
                                 (Some (Inr response_time), m1,
                                  pixel_status m1 (Intensity 0) w4)))))"

text \<open>\<open>ip_address\<close>\<close>

definition ip_address :: "manager \<Rightarrow> world \<Rightarrow> string result \<times> manager \<times> world" where
  "ip_address m w =
     and_then (ensure_connected m w)
       (\<lambda>u m1 w1.
          (let w2 = pixel_status m1 (RGB 0 0 100) w1;
               w3 = pixel_status m1 (Intensity 0) w2
           in (Some (Inr (ipv4_address w3)), m1, w3)))"

text \<open>\<open>signal_strength\<close>: reading \<open>rssi\<close> of an absent \<open>ap_info\<close> raises.\<close>

definition signal_strength :: "manager \<Rightarrow> world \<Rightarrow> int result \<times> manager \<times> world" where
  "signal_strength m w =
     and_then (ensure_connected m w)
       (\<lambda>u m1 w1.
          case ap_info w1 of
            None \<Rightarrow> (Some (Inl AttributeError), m1, w1)
          | Some n \<Rightarrow> (Some (Inr (rssi n)), m1, w1))"

section \<open>Shutting down\<close>

text \<open>Calling a value: none of the values modelled is callable.\<close>

definition call_value :: "pyval \<Rightarrow> exc + pyval" where
  "call_value v = Inl (TypeError ''object is not callable'')"

text \<open>
  \<open>deinit\<close>. \<open>closed\<close> is the outcome of \<open>self._pool.close()\<close>; the source then calls
  what \<open>close()\<close> returned: \<open>self._pool.close()()\<close>. The pool attribute is left as it is.
\<close>

definition deinit ::
  "manager \<Rightarrow> world \<Rightarrow> exc + pyval \<Rightarrow> (exc + unit) \<times> manager \<times> world" where
  "deinit m w closed =
     (let w1 = pixel_status m (Intensity 0) w
      in if pool m \<noteq> None then
           (let w2 = emit [PoolClose] w1
            in case closed of
                 Inl e \<Rightarrow> (Inl e, m, w2)
               | Inr returned \<Rightarrow>
                   (case call_value returned of
                      Inl e \<Rightarrow> (Inl e, m, w2)
                    | Inr v \<Rightarrow> (Inr (), m, w2)))
         else (Inr (), m, w1))"

section \<open>Network time\<close>

definition TIME1970 :: int where
  "TIME1970 = 2208988800"

text \<open>One big-endian unsigned 32-bit integer.\<close>

definition be_u32 :: "byte \<Rightarrow> byte \<Rightarrow> byte \<Rightarrow> byte \<Rightarrow> int" where
  "be_u32 b0 b1 b2 b3 = uint b0 * 2 ^ 24 + uint b1 * 2 ^ 16 + uint b2 * 2 ^ 8 + uint b3"

fun words_be :: "byte list \<Rightarrow> int list" where
  "words_be (b0 # b1 # b2 # b3 # bs) = be_u32 b0 b1 b2 b3 # words_be bs"
| "words_be bs = []"

text \<open>\<open>struct.unpack("!12I", data)\<close>: the data must be exactly 48 bytes long.\<close>

definition unpack_12I :: "byte list \<Rightarrow> exc + int list" where
  "unpack_12I data = (if length data = 48 then Inr (words_be data) else Inl StructError)"

text \<open>The request datagram: \<open>b'\x1b' + 47 * b'\0'\<close>.\<close>

definition ntp_request :: "byte list" where
  "ntp_request = 27 # replicate 47 0"

text \<open>
  \<open>get_ntp_time\<close>. \<open>localtime\<close> is the library's \<open>time.localtime\<close>: for an epoch
  second it returns the calendar time, or raises when the second is outside the range
  the platform converts. \<open>sent\<close> is the outcome of \<open>sendto\<close>, \<open>received\<close> that of
  \<open>recvfrom_into\<close>: the exception it raises (as on a timeout) or the datagram it
  writes to the start of the 1024-byte buffer. The socket is closed when the \<open>with\<close>
  block is left, before the reply is decoded.
\<close>

definition get_ntp_time ::
  "(int \<Rightarrow> exc + struct_time) \<Rightarrow> manager \<Rightarrow> world \<Rightarrow> int \<Rightarrow> bool \<Rightarrow> exc + unit
     \<Rightarrow> exc + byte list \<Rightarrow> unit result \<times> manager \<times> world" where
  "get_ntp_time localtime m w tz_offset dbg sent received =
     and_then (ensure_connected m w)
       (\<lambda>u m1 w1.
          if pool m1 = None then (Some (Inl AssertionError), m1, w1)
          else
            (let w2 = emit [SocketOpen, SetTimeout 30, SendTo ntp_request ''pool.ntp.org'' 123] w1
             in case sent of
                  Inl e \<Rightarrow> (Some (Inl e), m1, emit [SocketClose] w2)
                | Inr u1 \<Rightarrow>
                    (let w3 = emit [RecvFromInto 1024] w2
                     in case received of
                          Inl e \<Rightarrow> (Some (Inl e), m1, emit [SocketClose] w3)
                        | Inr datagram \<Rightarrow>
                            (let buffer = take 1024 datagram @ replicate (1024 - length datagram) 0;
                                 nbytes = min (length datagram) 1024;
                                 w4 = emit [SocketClose] w3
                             in case unpack_12I (take nbytes buffer) of
                                  Inl e \<Rightarrow> (Some (Inl e), m1, w4)
                                | Inr unpacked \<Rightarrow>
                                    (let t = unpacked ! 10 - TIME1970
                                     in case localtime (t + tz_offset) of
                                          Inl e \<Rightarrow> (Some (Inl e), m1, w4)
                                        | Inr now \<Rightarrow>
                                            (let w5 = w4\<lparr>rtc_datetime := Some now\<rparr>
                                             in (Some (Inr ()), m1,
                                                 if dbg then emit [PrintTimeSet now] w5
                                                 else w5)))))))"

section \<open>Reading the calls made\<close>

text \<open>The association attempts among the calls made: the arguments of each \<open>radio.connect\<close>.\<close>

fun radio_attempts :: "event list \<Rightarrow> (pyval \<times> pyval) list" where
  "radio_attempts [] = []"
| "radio_attempts (RadioConnect s p # es) = (s, p) # radio_attempts es"
| "radio_attempts (e # es) = radio_attempts es"

text \<open>The calls that only \<open>connect\<close> and the functions it calls make.\<close>

fun is_connect_event :: "event \<Rightarrow> bool" where
  "is_connect_event PrintMac = True"
| "is_connect_event ScanStart = True"
| "is_connect_event (PrintAccessPoint name strength) = True"
| "is_connect_event ScanStop = True"
| "is_connect_event PrintConnecting = True"
| "is_connect_event (RadioConnect s p) = True"
| "is_connect_event (PrintFailed e) = True"
| "is_connect_event PoolCreated = True"
| "is_connect_event SessionCreated = True"
| "is_connect_event e = False"

text \<open>What the status indicator shows after the calls made: the last value written to it.\<close>

fun shown :: "status_value option \<Rightarrow> event list \<Rightarrow> status_value option" where
  "shown v [] = v"
| "shown v (PixelColor x # es) = shown (Some x) es"
| "shown v (PixelFill x # es) = shown (Some x) es"
| "shown v (e # es) = shown v es"

definition indicator :: "world \<Rightarrow> status_value option" where
  "indicator w = shown None (trace w)"

section \<open>Concrete states\<close>

text \<open>A radio that is not associated, and nothing done yet.\<close>

definition idle_world :: world where
  "idle_world =
     \<lparr> ap_info = None, connect_script = [], visible_aps = [], ipv4_address = ''0.0.0.0'',
       rtc_datetime = None, trace = [] \<rparr>"

text \<open>
  The manager \<open>__init__\<close> builds from the secrets \<open>{"ssid": s, "password": p}\<close> with
  the given status pixel, the normal connection type and no debugging.
\<close>

definition manager_with :: "pyval \<Rightarrow> pyval \<Rightarrow> pixel_device option \<Rightarrow> manager" where
  "manager_with s p status_pixel =
     \<lparr> debug = False, ssid = s, password = p, connection_type = NORMAL,
       statuspix = status_pixel, ap_index = 0, pool = None, requests = None,
       ent_ssid = s, ent_ident = PStr [], ent_user = None, ent_password = None \<rparr>"

definition home_network :: network where
  "home_network = \<lparr> net_ssid = ''A'', rssi = - 60 \<rparr>"

definition rgb_led :: pixel_device where
  "rgb_led = \<lparr> dev_truthy = True, has_color = True \<rparr>"

text \<open>What it is for an operation to have left connecting alone.\<close>

text \<open>
  An operation made no move to connect: it returned or raised, the manager (its cursor,
  socket pool and session) is as before, and so are the radio's association and the
  outcomes still to come of \<open>radio.connect\<close>; no call was made that only \<open>connect\<close> makes,
  in particular no \<open>radio.connect\<close>.
\<close>

definition no_connect :: "manager \<Rightarrow> world \<Rightarrow> 'a result \<times> manager \<times> world \<Rightarrow> bool" where
  "no_connect m w out =
     (case out of
        (r, m', w') \<Rightarrow>
          r \<noteq> None \<and> m' = m \<and> ap_info w' = ap_info w
        \<and> connect_script w' = connect_script w
        \<and> filter is_connect_event (trace w') = filter is_connect_event (trace w)
        \<and> radio_attempts (trace w') = radio_attempts (trace w))"

text \<open>An associated radio, and a manager that has connected with a scalar pair.\<close>

definition associated_world :: world where
  "associated_world = idle_world\<lparr>ap_info := Some home_network\<rparr>"

definition connected_manager :: "pixel_device option \<Rightarrow> manager" where
  "connected_manager status_pixel =
     (manager_with (PStr ''A'') (PStr ''a'') status_pixel)
       \<lparr>pool := Some SocketPool, requests := Some Session\<rparr>"

text \<open>
  A \<open>time.localtime\<close> as on a platform whose \<open>time_t\<close> is a signed 64-bit integer: a
  second outside that range raises \<open>OverflowError\<close>.
\<close>

definition localtime_int64 :: "int \<Rightarrow> exc + struct_time" where
  "localtime_int64 secs =
     (if - (2 ^ 63) \<le> secs \<and> secs < 2 ^ 63 then Inr (Localtime secs) else Inl OverflowError)"

declare connect_loop.simps [simp del]

section \<open>Calls and the state they leave\<close>

lemma trace_emit [simp]: "trace (emit es w) = trace w @ es"
  and ap_info_emit [simp]: "ap_info (emit es w) = ap_info w"
  and connect_script_emit [simp]: "connect_script (emit es w) = connect_script w"
  and rtc_emit [simp]: "rtc_datetime (emit es w) = rtc_datetime w"
  and visible_emit [simp]: "visible_aps (emit es w) = visible_aps w"
  and ipv4_emit [simp]: "ipv4_address (emit es w) = ipv4_address w"
  by (simp_all add: emit_def)

lemma trace_pixel_status [simp]: "trace (pixel_status m v w) = trace w @ pixel_events m v"
  and ap_info_pixel_status [simp]: "ap_info (pixel_status m v w) = ap_info w"
  and connect_script_pixel_status [simp]: "connect_script (pixel_status m v w) = connect_script w"
  and rtc_pixel_status [simp]: "rtc_datetime (pixel_status m v w) = rtc_datetime w"
  and visible_pixel_status [simp]: "visible_aps (pixel_status m v w) = visible_aps w"
  and ipv4_pixel_status [simp]: "ipv4_address (pixel_status m v w) = ipv4_address w"
  by (simp_all add: pixel_status_def)

lemma radio_attempts_append [simp]:
  "radio_attempts (xs @ ys) = radio_attempts xs @ radio_attempts ys"
  by (induction xs rule: radio_attempts.induct) simp_all

lemma radio_attempts_pixel_events [simp]: "radio_attempts (pixel_events m v) = []"
  by (simp add: pixel_events_def split: option.split)

section \<open>The connection loop\<close>

lemma connect_loop_associated:
  "ap_info w \<noteq> None \<Longrightarrow> connect_loop m s p failure_count w = (Some (Inr ()), w)"
  by (simp add: connect_loop.simps)

lemma connect_loop_exhausted:
  "ap_info w = None \<Longrightarrow> connect_script w = [] \<Longrightarrow> connect_loop m s p failure_count w = (None, w)"
  by (simp add: connect_loop.simps)

lemma connect_loop_fails:
  assumes "ap_info w = None" "connect_script w = Fails e # rest"
  shows "connect_loop m s p failure_count w =
           (if is_retry_error e
            then connect_loop m s p (failure_count + 1)
                   (emit ((if debug m then [PrintConnecting] else []) @ pixel_events m (RGB 100 0 0)
                          @ [RadioConnect s p, PrintFailed e]) (w\<lparr>connect_script := rest\<rparr>))
            else (Some (Inl e),
                  emit ((if debug m then [PrintConnecting] else []) @ pixel_events m (RGB 100 0 0)
                          @ [RadioConnect s p]) (w\<lparr>connect_script := rest\<rparr>)))"
  using assms
  by (subst connect_loop.simps) (simp add: Let_def emit_def pixel_status_def)

lemma connect_loop_returns:
  assumes "ap_info w = None" "connect_script w = ReturnsUnassociated # rest"
  shows "connect_loop m s p failure_count w =
           connect_loop m s p 0
                   (emit ((if debug m then [PrintConnecting] else []) @ pixel_events m (RGB 100 0 0)
                          @ [RadioConnect s p] @ pixel_events m (RGB 0 100 0)) (w\<lparr>connect_script := rest\<rparr>))"
  using assms
  by (subst connect_loop.simps) (simp add: Let_def emit_def pixel_status_def)

lemma connect_loop_associates:
  assumes "ap_info w = None" "connect_script w = Associates n # rest"
  shows "connect_loop m s p failure_count w =
           (Some (Inr ()),
            emit ((if debug m then [PrintConnecting] else []) @ pixel_events m (RGB 100 0 0)
                   @ [RadioConnect s p] @ pixel_events m (RGB 0 100 0))
              (w\<lparr>connect_script := rest, ap_info := Some n\<rparr>))"
  using assms
  by (subst connect_loop.simps) (simp add: Let_def emit_def pixel_status_def connect_loop_associated)


lemma connect_loop_invariant:
  "connect_loop m s p failure_count w = (r, w') \<Longrightarrow>
     (\<exists>k. radio_attempts (trace w') = radio_attempts (trace w) @ replicate k (s, p))
   \<and> (r = Some (Inr ()) \<longrightarrow> ap_info w' \<noteq> None)
   \<and> (\<forall>e. r = Some (Inl e) \<longrightarrow> \<not> is_retry_error e)
   \<and> (r = None \<longrightarrow> ap_info w' = None \<and> connect_script w' = [])"
proof (induction m s p failure_count w arbitrary: r w' rule: connect_loop.induct)
  case (1 m s p failure_count w)
  show ?case
  proof (cases "ap_info w = None")
    case False
    then have "connect_loop m s p failure_count w = (Some (Inr ()), w)"
      by (rule connect_loop_associated)
    with "1.prems" False show ?thesis
      by (auto intro: exI [of _ 0])
  next
    case down: True
    show ?thesis
    proof (cases "connect_script w")
      case Nil
      with down "1.prems" show ?thesis
        by (auto simp: connect_loop_exhausted intro: exI [of _ 0])
    next
      case (Cons outcome rest)
      let ?pre = "(if debug m then [PrintConnecting] else []) @ pixel_events m (RGB 100 0 0)"
      let ?w1 = "if debug m then emit [PrintConnecting] w else w"
      let ?w2 = "pixel_status m (RGB 100 0 0) ?w1"
      let ?w3 = "emit [RadioConnect s p] (?w2\<lparr>connect_script := rest\<rparr>)"
      have att3: "radio_attempts (trace ?w3) = radio_attempts (trace w) @ [(s, p)]"
        by simp
      have extend: "\<exists>k. radio_attempts (trace w') = radio_attempts (trace w) @ replicate k (s, p)"
        if "radio_attempts (trace w') = radio_attempts (trace w) @ (s, p) # replicate k (s, p)" for k
        using that by (intro exI [of _ "Suc k"]) simp
      show ?thesis
      proof (cases outcome)
        case (Fails e)
        show ?thesis
        proof (cases "is_retry_error e")
          case True
          have eq: "connect_loop m s p failure_count w =
                      connect_loop m s p (failure_count + 1) (emit [PrintFailed e] ?w3)"
            using down Cons Fails True
            by (subst connect_loop.simps) (simp add: Let_def)
          have ih: "(\<exists>k. radio_attempts (trace w') =
                          radio_attempts (trace (emit [PrintFailed e] ?w3)) @ replicate k (s, p))
              \<and> (r = Some (Inr ()) \<longrightarrow> ap_info w' \<noteq> None)
              \<and> (\<forall>e. r = Some (Inl e) \<longrightarrow> \<not> is_retry_error e)
              \<and> (r = None \<longrightarrow> ap_info w' = None \<and> connect_script w' = [])"
            using "1.IH"(3) [OF _ Cons refl refl refl Fails True] down "1.prems" eq
            by simp
          then obtain k where "radio_attempts (trace w') =
                 radio_attempts (trace (emit [PrintFailed e] ?w3)) @ replicate k (s, p)"
            by blast
          moreover have "radio_attempts (trace (emit [PrintFailed e] ?w3)) =
                 radio_attempts (trace w) @ [(s, p)]"
            by simp
          ultimately have "radio_attempts (trace w') =
                 radio_attempts (trace w) @ (s, p) # replicate k (s, p)"
            by simp
          from extend [OF this] ih show ?thesis by blast
        next
          case False
          have eq: "connect_loop m s p failure_count w = (Some (Inl e), ?w3)"
            using down Cons Fails False
            by (subst connect_loop.simps) (simp add: Let_def)
          with "1.prems" have "r = Some (Inl e)" "w' = ?w3" by simp_all
          with False show ?thesis
            by (auto intro: exI [of _ 1])
        qed
      next
        case ReturnsUnassociated
        have eq: "connect_loop m s p failure_count w =
                    connect_loop m s p 0 (pixel_status m (RGB 0 100 0) ?w3)"
          using down Cons ReturnsUnassociated
          by (subst connect_loop.simps) (simp add: Let_def)
        have ih: "(\<exists>k. radio_attempts (trace w') =
                        radio_attempts (trace (pixel_status m (RGB 0 100 0) ?w3)) @ replicate k (s, p))
            \<and> (r = Some (Inr ()) \<longrightarrow> ap_info w' \<noteq> None)
            \<and> (\<forall>e. r = Some (Inl e) \<longrightarrow> \<not> is_retry_error e)
            \<and> (r = None \<longrightarrow> ap_info w' = None \<and> connect_script w' = [])"
          using "1.IH"(2) [OF _ Cons refl refl refl ReturnsUnassociated] down "1.prems" eq
          by simp
        then obtain k where "radio_attempts (trace w') =
               radio_attempts (trace (pixel_status m (RGB 0 100 0) ?w3)) @ replicate k (s, p)"
          by blast
        moreover have "radio_attempts (trace (pixel_status m (RGB 0 100 0) ?w3)) =
               radio_attempts (trace w) @ [(s, p)]"
          by simp
        ultimately have "radio_attempts (trace w') =
               radio_attempts (trace w) @ (s, p) # replicate k (s, p)"
          by simp
        from extend [OF this] ih show ?thesis by blast
      next
        case (Associates n)
        have eq: "connect_loop m s p failure_count w =
                    connect_loop m s p 0
                      (pixel_status m (RGB 0 100 0) (?w3\<lparr>ap_info := Some n\<rparr>))"
          using down Cons Associates
          by (subst connect_loop.simps) (simp add: Let_def)
        have ih: "(\<exists>k. radio_attempts (trace w') =
                        radio_attempts (trace (pixel_status m (RGB 0 100 0) (?w3\<lparr>ap_info := Some n\<rparr>)))
                          @ replicate k (s, p))
            \<and> (r = Some (Inr ()) \<longrightarrow> ap_info w' \<noteq> None)
            \<and> (\<forall>e. r = Some (Inl e) \<longrightarrow> \<not> is_retry_error e)
            \<and> (r = None \<longrightarrow> ap_info w' = None \<and> connect_script w' = [])"
          using "1.IH"(1) [OF _ Cons refl refl refl Associates] down "1.prems" eq
          by simp
        then obtain k where "radio_attempts (trace w') =
               radio_attempts (trace (pixel_status m (RGB 0 100 0) (?w3\<lparr>ap_info := Some n\<rparr>))) @ replicate k (s, p)"
          by blast
        moreover have "radio_attempts (trace (pixel_status m (RGB 0 100 0) (?w3\<lparr>ap_info := Some n\<rparr>))) =
               radio_attempts (trace w) @ [(s, p)]"
          by simp
        ultimately have "radio_attempts (trace w') =
               radio_attempts (trace w) @ (s, p) # replicate k (s, p)"
          by simp
        from extend [OF this] ih show ?thesis by blast
      qed
    qed
  qed
qed


lemma connect_loop_retries:
  assumes "ap_info w = None"
    and "connect_script w = map Fails errs @ Associates n # rest"
    and "\<forall>e\<in>set errs. is_retry_error e"
  shows "\<exists>w'. connect_loop m s p failure_count w = (Some (Inr ()), w')
           \<and> radio_attempts (trace w') =
               radio_attempts (trace w) @ replicate (Suc (length errs)) (s, p)
           \<and> ap_info w' = Some n \<and> connect_script w' = rest"
  using assms
proof (induction errs arbitrary: w failure_count)
  case Nil
  then show ?case
    by (simp add: connect_loop_associates)
next
  case (Cons e errs)
  let ?w = "emit ((if debug m then [PrintConnecting] else []) @ pixel_events m (RGB 100 0 0)
                    @ [RadioConnect s p, PrintFailed e])
              (w\<lparr>connect_script := map Fails errs @ Associates n # rest\<rparr>)"
  have step: "connect_loop m s p failure_count w = connect_loop m s p (failure_count + 1) ?w"
    using Cons.prems by (simp add: connect_loop_fails)
  have "\<exists>w'. connect_loop m s p (failure_count + 1) ?w = (Some (Inr ()), w')
           \<and> radio_attempts (trace w') =
               radio_attempts (trace ?w) @ replicate (Suc (length errs)) (s, p)
           \<and> ap_info w' = Some n \<and> connect_script w' = rest"
    by (rule Cons.IH) (use Cons.prems in simp_all)
  then obtain w' where w': "connect_loop m s p (failure_count + 1) ?w = (Some (Inr ()), w')"
      "radio_attempts (trace w') = radio_attempts (trace ?w) @ replicate (Suc (length errs)) (s, p)"
      "ap_info w' = Some n" "connect_script w' = rest"
    by blast
  have "radio_attempts (trace ?w) = radio_attempts (trace w) @ [(s, p)]"
    by simp
  with w'(2) have "radio_attempts (trace w') =
      radio_attempts (trace w) @ replicate (Suc (length (e # errs))) (s, p)"
    by simp
  with step w'(1,3,4) show ?case
    by simp
qed

text \<open>
  C1. In \<open>connect_normal\<close> the pair is fetched once, before the loop: the manager after
  the call is the manager after that single fetch, whatever the radio did, and every
  \<open>radio.connect\<close> of the call has that pair as its arguments. The call returns only with
  the radio associated, raises only what \<open>except (ValueError, RuntimeError)\<close> does not
  catch, and otherwise is still in its loop. When \<open>radio.connect\<close> fails with caught
  errors and then associates, the call returns after one attempt more than there were
  failures.
\<close>

theorem connect_normal_retries_same_pair:
  assumes "get_next_ap m = (Inr (s, p), m1)"
  shows "(case connect_normal m w of
            (r, m', w') \<Rightarrow>
              m' = m1
            \<and> (\<exists>k. radio_attempts (trace w') = radio_attempts (trace w) @ replicate k (s, p))
            \<and> (r = Some (Inr ()) \<longrightarrow> ap_info w' \<noteq> None)
            \<and> (\<forall>e. r = Some (Inl e) \<longrightarrow> \<not> is_retry_error e)
            \<and> (r = None \<longrightarrow> ap_info w' = None \<and> connect_script w' = []))
       \<and> (ap_info w = None
            \<and> connect_script w = map Fails errs @ Associates n # rest
            \<and> (\<forall>e\<in>set errs. is_retry_error e)
          \<longrightarrow> (\<exists>w'. connect_normal m w = (Some (Inr ()), m1, w')
                 \<and> radio_attempts (trace w') =
                     radio_attempts (trace w) @ replicate (Suc (length errs)) (s, p)
                 \<and> ap_info w' = Some n \<and> connect_script w' = rest))"
proof (intro conjI impI)
  obtain r w' where loop: "connect_loop m1 s p 0 w = (r, w')"
    by (cases "connect_loop m1 s p 0 w")
  then have cn: "connect_normal m w = (r, m1, w')"
    using assms by (simp add: connect_normal_def)
  from connect_loop_invariant [OF loop] cn
  show "case connect_normal m w of
            (r, m', w') \<Rightarrow>
              m' = m1
            \<and> (\<exists>k. radio_attempts (trace w') = radio_attempts (trace w) @ replicate k (s, p))
            \<and> (r = Some (Inr ()) \<longrightarrow> ap_info w' \<noteq> None)
            \<and> (\<forall>e. r = Some (Inl e) \<longrightarrow> \<not> is_retry_error e)
            \<and> (r = None \<longrightarrow> ap_info w' = None \<and> connect_script w' = [])"
    by simp
next
  assume h: "ap_info w = None
            \<and> connect_script w = map Fails errs @ Associates n # rest
            \<and> (\<forall>e\<in>set errs. is_retry_error e)"
  then obtain w' where "connect_loop m1 s p 0 w = (Some (Inr ()), w')"
      "radio_attempts (trace w') = radio_attempts (trace w) @ replicate (Suc (length errs)) (s, p)"
      "ap_info w' = Some n" "connect_script w' = rest"
    using connect_loop_retries [of w errs n rest m1 s p 0] by blast
  then show "\<exists>w'. connect_normal m w = (Some (Inr ()), m1, w')
                 \<and> radio_attempts (trace w') =
                     radio_attempts (trace w) @ replicate (Suc (length errs)) (s, p)
                 \<and> ap_info w' = Some n \<and> connect_script w' = rest"
    using assms by (simp add: connect_normal_def)
qed

text \<open>
  The scenario of two pairs: the first call fails once and then associates; both attempts
  are made with the first pair and the cursor has moved on by one.
\<close>

theorem connect_normal_retries_same_pair_witness:
  "get_next_ap (manager_with (PList [PStr ''A'', PStr ''B'']) (PList [PStr ''a'', PStr ''b'']) None)
     = (Inr (PStr ''A'', PStr ''a''),
        (manager_with (PList [PStr ''A'', PStr ''B'']) (PList [PStr ''a'', PStr ''b'']) None)
          \<lparr>ap_index := 1\<rparr>)
   \<and> (\<exists>w'. connect_normal
              (manager_with (PList [PStr ''A'', PStr ''B'']) (PList [PStr ''a'', PStr ''b'']) None)
              (idle_world\<lparr>connect_script := [Fails (RuntimeError ''no AP''), Associates home_network]\<rparr>)
            = (Some (Inr ()),
               (manager_with (PList [PStr ''A'', PStr ''B'']) (PList [PStr ''a'', PStr ''b'']) None)
                 \<lparr>ap_index := 1\<rparr>, w')
          \<and> radio_attempts (trace w') = [(PStr ''A'', PStr ''a''), (PStr ''A'', PStr ''a'')]
          \<and> ap_info w' = Some home_network \<and> connect_script w' = [])"
proof -
  let ?m = "manager_with (PList [PStr ''A'', PStr ''B'']) (PList [PStr ''a'', PStr ''b'']) None"
  let ?w = "idle_world\<lparr>connect_script := [Fails (RuntimeError ''no AP''), Associates home_network]\<rparr>"
  have fetch: "get_next_ap ?m = (Inr (PStr ''A'', PStr ''a''), ?m\<lparr>ap_index := 1\<rparr>)"
    by (simp add: get_next_ap_def manager_with_def Let_def)
  have pre: "ap_info ?w = None
      \<and> connect_script ?w = map Fails [RuntimeError ''no AP''] @ Associates home_network # []
      \<and> (\<forall>e\<in>set [RuntimeError ''no AP'']. is_retry_error e)"
    by (simp add: idle_world_def)
  have start: "radio_attempts (trace ?w) = []"
    by (simp add: idle_world_def)
  from connect_normal_retries_same_pair [OF fetch, of ?w "[RuntimeError ''no AP'']" home_network "[]"] pre
  have "\<exists>w'. connect_normal ?m ?w = (Some (Inr ()), ?m\<lparr>ap_index := 1\<rparr>, w')
          \<and> radio_attempts (trace w') =
              radio_attempts (trace ?w) @ replicate (Suc (length [RuntimeError ''no AP''])) (PStr ''A'', PStr ''a'')
          \<and> ap_info w' = Some home_network \<and> connect_script w' = []"
    by blast
  then have "\<exists>w'. connect_normal ?m ?w = (Some (Inr ()), ?m\<lparr>ap_index := 1\<rparr>, w')
          \<and> radio_attempts (trace w') = [(PStr ''A'', PStr ''a''), (PStr ''A'', PStr ''a'')]
          \<and> ap_info w' = Some home_network \<and> connect_script w' = []"
    by (simp add: idle_world_def)
  with fetch show ?thesis by blast
qed

section \<open>Credential rotation: the properties\<close>

lemma get_next_ap_step:
  assumes "is_sequence (ssid m)" "is_sequence (password m)"
    and "length (items (ssid m)) = length (items (password m))"
    and "ap_index m < length (items (ssid m))"
  shows "get_next_ap m =
           (Inr (items (ssid m) ! ap_index m, items (password m) ! ap_index m),
            m\<lparr>ap_index := Suc (ap_index m) mod length (items (ssid m))\<rparr>)"
proof -
  have ne: "truthy (ssid m)" "truthy (password m)"
    using assms by (cases "ssid m"; cases "password m"; auto)+
  show ?thesis
    using assms ne by (auto simp: get_next_ap_def Let_def mod_Suc)
qed

lemma get_next_ap_times_from:
  assumes "is_sequence (ssid m)" "is_sequence (password m)"
    and "items (ssid m) = ss" "items (password m) = ps"
    and "length ss = n" "length ps = n" "ap_index m < n"
  shows "get_next_ap_times k m =
           (Inr (map (\<lambda>j. (ss ! ((ap_index m + j) mod n), ps ! ((ap_index m + j) mod n))) [0..<k]),
            m\<lparr>ap_index := (ap_index m + k) mod n\<rparr>)"
  using assms
proof (induction k arbitrary: m)
  case 0
  then show ?case by simp
next
  case (Suc k)
  let ?m1 = "m\<lparr>ap_index := Suc (ap_index m) mod n\<rparr>"
  have step: "get_next_ap m = (Inr (ss ! ap_index m, ps ! ap_index m), ?m1)"
    using get_next_ap_step [of m] Suc.prems by simp
  have ih: "get_next_ap_times k ?m1 =
           (Inr (map (\<lambda>j. (ss ! ((ap_index ?m1 + j) mod n), ps ! ((ap_index ?m1 + j) mod n))) [0..<k]),
            ?m1\<lparr>ap_index := (ap_index ?m1 + k) mod n\<rparr>)"
    by (rule Suc.IH) (use Suc.prems in simp_all)
  have shift: "(Suc (ap_index m) mod n + j) mod n = (ap_index m + Suc j) mod n" for j
    by (simp add: mod_simps)
  have upt: "[0..<Suc k] = 0 # map Suc [0..<k]"
    by (simp add: upt_conv_Cons map_Suc_upt del: upt_Suc)
  have here: "ap_index m mod n = ap_index m"
    using Suc.prems by simp
  show ?case
    apply (simp only: get_next_ap_times.simps step ih prod.case sum.case upt)
    apply (simp add: shift here o_def del: upt_Suc)
    done
qed

lemma zip_as_map: "length xs = length ys \<Longrightarrow> zip xs ys = map (\<lambda>j. (xs ! j, ys ! j)) [0..<length xs]"
  by (rule nth_equalityI) simp_all

text \<open>
  C4. With two sequences of the same length \<open>N \<ge> 1\<close> and the cursor at 0, \<open>N\<close>
  consecutive calls of \<open>_get_next_ap\<close> return the pairs in order, each once, and leave
  the cursor at 0 again; one call more returns the first pair again.
\<close>

theorem get_next_ap_round_robin:
  assumes "is_sequence (ssid m)" and "is_sequence (password m)"
    and "length (items (ssid m)) = length (items (password m))"
    and "1 \<le> length (items (ssid m))"
    and "ap_index m = 0"
  shows "get_next_ap_times (length (items (ssid m))) m
           = (Inr (zip (items (ssid m)) (items (password m))), m)
       \<and> get_next_ap_times (Suc (length (items (ssid m)))) m
           = (Inr (zip (items (ssid m)) (items (password m))
                     @ [(items (ssid m) ! 0, items (password m) ! 0)]),
              m\<lparr>ap_index := 1 mod length (items (ssid m))\<rparr>)"
proof -
  define ss where "ss = items (ssid m)"
  define ps where "ps = items (password m)"
  define n where "n = length ss"
  have len: "length ss = n" "length ps = n"
    using assms(3) by (simp_all add: n_def ss_def ps_def)
  have pos: "0 < n"
    using assms(4) unfolding n_def ss_def by linarith
  have start: "ap_index m < n"
    using pos assms(5) by simp
  have run: "get_next_ap_times k m =
           (Inr (map (\<lambda>j. (ss ! (j mod n), ps ! (j mod n))) [0..<k]),
            m\<lparr>ap_index := k mod n\<rparr>)" for k
    using get_next_ap_times_from [OF assms(1) assms(2) ss_def [symmetric] ps_def [symmetric] len start, of k]
    by (simp add: assms(5))
  have first: "map (\<lambda>j. (ss ! (j mod n), ps ! (j mod n))) [0..<n] = zip ss ps"
    by (rule nth_equalityI) (simp_all add: len)
  have wrap: "map (\<lambda>j. (ss ! (j mod n), ps ! (j mod n))) [0..<Suc n] = zip ss ps @ [(ss ! 0, ps ! 0)]"
    using first by simp
  have same: "m\<lparr>ap_index := n mod n\<rparr> = m"
    using assms(5) by simp
  have next_index: "Suc n mod n = 1 mod n"
    by (simp add: mod_Suc)
  have a: "get_next_ap_times n m = (Inr (zip ss ps), m)"
    by (simp only: run first same)
  have b: "get_next_ap_times (Suc n) m = (Inr (zip ss ps @ [(ss ! 0, ps ! 0)]), m\<lparr>ap_index := 1 mod n\<rparr>)"
    by (simp only: run wrap next_index)
  show ?thesis
    using a b unfolding n_def ss_def ps_def by (rule conjI)
qed

theorem get_next_ap_round_robin_witness:
  "get_next_ap_times 2
     (manager_with (PList [PStr ''A'', PStr ''B'']) (PTuple [PStr ''a'', PStr ''b'']) None)
     = (Inr [(PStr ''A'', PStr ''a''), (PStr ''B'', PStr ''b'')],
        manager_with (PList [PStr ''A'', PStr ''B'']) (PTuple [PStr ''a'', PStr ''b'']) None)
   \<and> get_next_ap_times 3
     (manager_with (PList [PStr ''A'', PStr ''B'']) (PTuple [PStr ''a'', PStr ''b'']) None)
     = (Inr [(PStr ''A'', PStr ''a''), (PStr ''B'', PStr ''b''), (PStr ''A'', PStr ''a'')],
        (manager_with (PList [PStr ''A'', PStr ''B'']) (PTuple [PStr ''a'', PStr ''b'']) None)
          \<lparr>ap_index := 1\<rparr>)"
proof -
  let ?m = "manager_with (PList [PStr ''A'', PStr ''B'']) (PTuple [PStr ''a'', PStr ''b'']) None"
  have shape: "is_sequence (ssid ?m)" "is_sequence (password ?m)"
      "length (items (ssid ?m)) = length (items (password ?m))"
      "1 \<le> length (items (ssid ?m))" "ap_index ?m = 0"
    by (simp_all add: manager_with_def)
  have two: "length (items (ssid ?m)) = 2" and three: "Suc (length (items (ssid ?m))) = 3"
    by (simp_all add: manager_with_def)
  have vals: "zip (items (ssid ?m)) (items (password ?m)) = [(PStr ''A'', PStr ''a''), (PStr ''B'', PStr ''b'')]"
      "items (ssid ?m) ! 0 = PStr ''A''" "items (password ?m) ! 0 = PStr ''a''"
    by (simp_all add: manager_with_def)
  show ?thesis
    using get_next_ap_round_robin [OF shape]
    unfolding two three vals by simp
qed

lemma truthy_sequence: "is_sequence v \<Longrightarrow> truthy v = (items v \<noteq> [])"
  by (cases v) simp_all

text \<open>
  C5. When both credentials are sequences and one is empty or their lengths differ, or when
  exactly one of them is a sequence, \<open>_get_next_ap\<close> raises (\<open>ValueError\<close> in the
  first two cases, \<open>NotImplementedError\<close> in the last) and returns no pair.
\<close>

theorem get_next_ap_rejects_malformed:
  assumes "(is_sequence (ssid m) \<and> is_sequence (password m)
             \<and> (length (items (ssid m)) \<noteq> length (items (password m))
                  \<or> items (ssid m) = [] \<or> items (password m) = []))
           \<or> is_sequence (ssid m) \<noteq> is_sequence (password m)"
  shows "fst (get_next_ap m) =
           Inl (if is_sequence (ssid m) \<and> is_sequence (password m)
                then (if items (ssid m) = [] \<or> items (password m) = []
                      then ValueError ''SSID and Password should contain at least 1 value''
                      else ValueError ''The length of SSIDs and Passwords should match'')
                else NotImplementedError
                  ''If using multiple passwords, both SSID and Password should be lists or tuples'')
       \<and> (\<forall>ap. fst (get_next_ap m) \<noteq> Inr ap)"
proof (cases "is_sequence (ssid m) \<and> is_sequence (password m)")
  case True
  then show ?thesis
    using assms by (auto simp: get_next_ap_def truthy_sequence)
next
  case False
  then show ?thesis
    using assms by (auto simp: get_next_ap_def)
qed

theorem get_next_ap_rejects_malformed_witness:
  "fst (get_next_ap (manager_with (PList [PStr ''A'', PStr ''B'']) (PList [PStr ''a'']) None))
     = Inl (ValueError ''The length of SSIDs and Passwords should match'')
   \<and> fst (get_next_ap (manager_with (PList []) (PList []) None))
     = Inl (ValueError ''SSID and Password should contain at least 1 value'')
   \<and> fst (get_next_ap (manager_with (PList [PStr ''A'']) (PStr ''a'') None))
     = Inl (NotImplementedError
         ''If using multiple passwords, both SSID and Password should be lists or tuples'')"
proof -
  let ?m1 = "manager_with (PList [PStr ''A'', PStr ''B'']) (PList [PStr ''a'']) None"
  let ?m2 = "manager_with (PList []) (PList []) None"
  let ?m3 = "manager_with (PList [PStr ''A'']) (PStr ''a'') None"
  have h1: "(is_sequence (ssid ?m1) \<and> is_sequence (password ?m1)
             \<and> (length (items (ssid ?m1)) \<noteq> length (items (password ?m1))
                  \<or> items (ssid ?m1) = [] \<or> items (password ?m1) = []))
           \<or> is_sequence (ssid ?m1) \<noteq> is_sequence (password ?m1)"
    by (simp add: manager_with_def)
  have h2: "(is_sequence (ssid ?m2) \<and> is_sequence (password ?m2)
             \<and> (length (items (ssid ?m2)) \<noteq> length (items (password ?m2))
                  \<or> items (ssid ?m2) = [] \<or> items (password ?m2) = []))
           \<or> is_sequence (ssid ?m2) \<noteq> is_sequence (password ?m2)"
    by (simp add: manager_with_def)
  have h3: "(is_sequence (ssid ?m3) \<and> is_sequence (password ?m3)
             \<and> (length (items (ssid ?m3)) \<noteq> length (items (password ?m3))
                  \<or> items (ssid ?m3) = [] \<or> items (password ?m3) = []))
           \<or> is_sequence (ssid ?m3) \<noteq> is_sequence (password ?m3)"
    by (simp add: manager_with_def)
  show ?thesis
    using get_next_ap_rejects_malformed [OF h1] get_next_ap_rejects_malformed [OF h2]
      get_next_ap_rejects_malformed [OF h3]
    by (simp add: manager_with_def)
qed

text \<open>
  C9. A call of \<open>_get_next_ap\<close> that raises leaves the manager, and so the cursor, as it
  was: every check is made before the cursor is read or moved.
\<close>

theorem get_next_ap_failure_leaves_manager:
  assumes "fst (get_next_ap m) = Inl e"
  shows "snd (get_next_ap m) = m"
  using assms by (auto simp: get_next_ap_def Let_def split: if_splits)

theorem get_next_ap_failure_leaves_manager_witness:
  "snd (get_next_ap ((manager_with (PTuple [PStr ''A'', PStr ''B'', PStr ''C''])
                        (PTuple [PStr ''a'', PStr ''b'']) None) \<lparr>ap_index := 2\<rparr>))
     = (manager_with (PTuple [PStr ''A'', PStr ''B'', PStr ''C''])
          (PTuple [PStr ''a'', PStr ''b'']) None) \<lparr>ap_index := 2\<rparr>
   \<and> snd (get_next_ap (manager_with (PList [PStr ''A'']) (PList []) None))
     = manager_with (PList [PStr ''A'']) (PList []) None
   \<and> snd (get_next_ap (manager_with (PStr ''A'') (PList [PStr ''a'']) None))
     = manager_with (PStr ''A'') (PList [PStr ''a'']) None"
proof -
  let ?m1 = "(manager_with (PTuple [PStr ''A'', PStr ''B'', PStr ''C''])
                (PTuple [PStr ''a'', PStr ''b'']) None) \<lparr>ap_index := 2\<rparr>"
  let ?m2 = "manager_with (PList [PStr ''A'']) (PList []) None"
  let ?m3 = "manager_with (PStr ''A'') (PList [PStr ''a'']) None"
  have h1: "fst (get_next_ap ?m1) = Inl (ValueError ''The length of SSIDs and Passwords should match'')"
    by (simp add: get_next_ap_def manager_with_def)
  have h2: "fst (get_next_ap ?m2) = Inl (ValueError ''SSID and Password should contain at least 1 value'')"
    by (simp add: get_next_ap_def manager_with_def)
  have h3: "fst (get_next_ap ?m3) = Inl (NotImplementedError
         ''If using multiple passwords, both SSID and Password should be lists or tuples'')"
    by (simp add: get_next_ap_def manager_with_def)
  show ?thesis
    using get_next_ap_failure_leaves_manager [OF h1] get_next_ap_failure_leaves_manager [OF h2]
      get_next_ap_failure_leaves_manager [OF h3]
    by (intro conjI)
qed

section \<open>The guard of the public operations\<close>

lemma connect_events_pixel_events [simp]: "filter is_connect_event (pixel_events m v) = []"
  by (simp add: pixel_events_def split: option.split)

lemma ensure_connected_associated:
  "ap_info w \<noteq> None \<Longrightarrow> ensure_connected m w = (Some (Inr ()), m, w)"
  by (auto simp: ensure_connected_def)

lemma and_then_returned [simp]: "and_then (Some (Inr v), m, w) k = k v m w"
  by (simp add: and_then_def)

lemma no_connect_get:
  "ap_info w \<noteq> None \<Longrightarrow> no_connect m w (get m w url kw reply)"
  by (simp add: get_def ensure_connected_associated no_connect_def Let_def split: sum.split)

lemma no_connect_post:
  "ap_info w \<noteq> None \<Longrightarrow> no_connect m w (post m w url kw reply)"
  by (simp add: post_def ensure_connected_associated no_connect_def Let_def split: sum.split)

lemma no_connect_put:
  "ap_info w \<noteq> None \<Longrightarrow> no_connect m w (put m w url kw reply)"
  by (simp add: put_def ensure_connected_associated no_connect_def Let_def split: sum.split)

lemma no_connect_patch:
  "ap_info w \<noteq> None \<Longrightarrow> no_connect m w (patch m w url kw reply)"
  by (simp add: patch_def ensure_connected_associated no_connect_def Let_def split: sum.split)

lemma no_connect_delete:
  "ap_info w \<noteq> None \<Longrightarrow> no_connect m w (delete m w url kw reply)"
  by (simp add: delete_def ensure_connected_associated no_connect_def Let_def split: sum.split)

lemma no_connect_ping:
  "ap_info w \<noteq> None \<Longrightarrow> no_connect m w (ping m w host addrinfo parsed echo)"
  by (simp add: ping_def ensure_connected_associated no_connect_def Let_def
      split: sum.split list.split)

lemma no_connect_ip_address:
  "ap_info w \<noteq> None \<Longrightarrow> no_connect m w (ip_address m w)"
  by (simp add: ip_address_def ensure_connected_associated no_connect_def Let_def)

lemma no_connect_signal_strength:
  "ap_info w \<noteq> None \<Longrightarrow> no_connect m w (signal_strength m w)"
  by (auto simp: signal_strength_def ensure_connected_associated no_connect_def)

lemma no_connect_get_ntp_time:
  "ap_info w \<noteq> None \<Longrightarrow> no_connect m w (get_ntp_time localtime m w tz_offset dbg sent received)"
  by (simp add: get_ntp_time_def ensure_connected_associated no_connect_def Let_def
      split: sum.split)

text \<open>
  C2. While the radio reports an association, the guard returns at once with nothing
  changed, so passing it twice is passing it once; and none of \<open>get\<close>, \<open>post\<close>, \<open>put\<close>,
  \<open>patch\<close>, \<open>delete\<close>, \<open>ping\<close>, \<open>ip_address\<close>, \<open>signal_strength\<close> and
  \<open>get_ntp_time\<close> calls \<open>radio.connect\<close> or does anything else of \<open>connect\<close>.
\<close>

theorem associated_operations_do_not_connect:
  assumes "ap_info w \<noteq> None"
  shows "ensure_connected m w = (Some (Inr ()), m, w)
       \<and> and_then (ensure_connected m w) (\<lambda>u. ensure_connected) = ensure_connected m w
       \<and> no_connect m w (get m w url kw reply)
       \<and> no_connect m w (post m w url kw reply)
       \<and> no_connect m w (put m w url kw reply)
       \<and> no_connect m w (patch m w url kw reply)
       \<and> no_connect m w (delete m w url kw reply)
       \<and> no_connect m w (ping m w host addrinfo parsed echo)
       \<and> no_connect m w (ip_address m w)
       \<and> no_connect m w (signal_strength m w)
       \<and> no_connect m w (get_ntp_time localtime m w tz_offset dbg sent received)"
  using assms
  by (simp add: ensure_connected_associated no_connect_get no_connect_post no_connect_put
      no_connect_patch no_connect_delete no_connect_ping no_connect_ip_address
      no_connect_signal_strength no_connect_get_ntp_time)

theorem associated_operations_do_not_connect_witness:
  "ap_info associated_world \<noteq> None
   \<and> ensure_connected (connected_manager None) associated_world
       = (Some (Inr ()), connected_manager None, associated_world)
   \<and> and_then (ensure_connected (connected_manager None) associated_world) (\<lambda>u. ensure_connected)
       = ensure_connected (connected_manager None) associated_world
   \<and> no_connect (connected_manager None) associated_world
       (get (connected_manager None) associated_world ''http://example.com/'' [] (Inr ''ok''))
   \<and> no_connect (connected_manager None) associated_world
       (post (connected_manager None) associated_world ''http://example.com/'' [] (Inr ''ok''))
   \<and> no_connect (connected_manager None) associated_world
       (put (connected_manager None) associated_world ''http://example.com/'' [] (Inr ''ok''))
   \<and> no_connect (connected_manager None) associated_world
       (patch (connected_manager None) associated_world ''http://example.com/'' [] (Inr ''ok''))
   \<and> no_connect (connected_manager None) associated_world
       (delete (connected_manager None) associated_world ''http://example.com/'' [] (Inr ''ok''))
   \<and> no_connect (connected_manager None) associated_world
       (ping (connected_manager None) associated_world ''example.com'' (Inr [''192.0.2.1''])
          (Inr ()) (Inr (12 :: nat)))
   \<and> no_connect (connected_manager None) associated_world
       (ip_address (connected_manager None) associated_world)
   \<and> no_connect (connected_manager None) associated_world
       (signal_strength (connected_manager None) associated_world)
   \<and> no_connect (connected_manager None) associated_world
       (get_ntp_time localtime_int64 (connected_manager None) associated_world 0 False (Inr ())
          (Inl TimeoutError))"
proof -
  have h: "ap_info associated_world \<noteq> None"
    by (simp add: associated_world_def)
  show ?thesis
    using h associated_operations_do_not_connect [OF h, of "connected_manager None"
        "''http://example.com/''" "[]" "Inr ''ok''" "''example.com''" "Inr [''192.0.2.1'']"
        "Inr ()" "Inr (12 :: nat)" localtime_int64 0 False "Inr ()" "Inl TimeoutError"]
    by blast
qed

section \<open>Requests and the status indicator\<close>

lemma emit_emit [simp]: "emit ys (emit xs w) = emit (xs @ ys) w"
  by (simp add: emit_def)

lemma shown_append [simp]: "shown v (xs @ ys) = shown (shown v xs) ys"
  by (induction v xs rule: shown.induct) simp_all

lemma shown_pixel_events:
  "statuspix m = Some d \<Longrightarrow> dev_truthy d \<Longrightarrow> shown x (pixel_events m v) = Some v"
  by (simp add: pixel_events_def)

lemma indicator_emit: "indicator (emit es w) = shown (indicator w) es"
  by (simp add: indicator_def)

text \<open>
  C8. For a request made while associated and with a session, whose HTTP call returns:
  the busy value \<open>(0, 0, 100)\<close> is written to the indicator before the call, and
  \<open>get\<close>, \<open>put\<close>, \<open>patch\<close> and \<open>delete\<close> write 0 after it, while \<open>post\<close> writes
  nothing more. With a working indicator it therefore shows 0 after the first four and
  still shows the busy value after \<open>post\<close>.
\<close>

theorem request_indicator_reset_except_post:
  assumes "ap_info w \<noteq> None" and "requests m \<noteq> None"
  shows "get m w url kw (Inr resp) =
           (Some (Inr resp), m,
            emit (pixel_events m (RGB 0 0 100) @ [HttpRequest GET url kw]
                  @ pixel_events m (Intensity 0)) w)
       \<and> put m w url kw (Inr resp) =
           (Some (Inr resp), m,
            emit (pixel_events m (RGB 0 0 100) @ [HttpRequest PUT url kw]
                  @ pixel_events m (Intensity 0)) w)
       \<and> patch m w url kw (Inr resp) =
           (Some (Inr resp), m,
            emit (pixel_events m (RGB 0 0 100) @ [HttpRequest PATCH url kw]
                  @ pixel_events m (Intensity 0)) w)
       \<and> delete m w url kw (Inr resp) =
           (Some (Inr resp), m,
            emit (pixel_events m (RGB 0 0 100) @ [HttpRequest DELETE url kw]
                  @ pixel_events m (Intensity 0)) w)
       \<and> post m w url kw (Inr resp) =
           (Some (Inr resp), m,
            emit (pixel_events m (RGB 0 0 100) @ [HttpRequest POST url kw]) w)
       \<and> (\<forall>d. statuspix m = Some d \<and> dev_truthy d \<longrightarrow>
            indicator (snd (snd (get m w url kw (Inr resp)))) = Some (Intensity 0)
          \<and> indicator (snd (snd (put m w url kw (Inr resp)))) = Some (Intensity 0)
          \<and> indicator (snd (snd (patch m w url kw (Inr resp)))) = Some (Intensity 0)
          \<and> indicator (snd (snd (delete m w url kw (Inr resp)))) = Some (Intensity 0)
          \<and> indicator (snd (snd (post m w url kw (Inr resp)))) = Some (RGB 0 0 100))"
proof -
  have guard: "ensure_connected m w = (Some (Inr ()), m, w)"
    using assms(1) by (rule ensure_connected_associated)
  have g: "get m w url kw (Inr resp) =
           (Some (Inr resp), m,
            emit (pixel_events m (RGB 0 0 100) @ [HttpRequest GET url kw]
                  @ pixel_events m (Intensity 0)) w)"
    using assms(2) by (simp add: get_def guard pixel_status_def Let_def)
  have pu: "put m w url kw (Inr resp) =
           (Some (Inr resp), m,
            emit (pixel_events m (RGB 0 0 100) @ [HttpRequest PUT url kw]
                  @ pixel_events m (Intensity 0)) w)"
    using assms(2) by (simp add: put_def guard pixel_status_def Let_def)
  have pa: "patch m w url kw (Inr resp) =
           (Some (Inr resp), m,
            emit (pixel_events m (RGB 0 0 100) @ [HttpRequest PATCH url kw]
                  @ pixel_events m (Intensity 0)) w)"
    using assms(2) by (simp add: patch_def guard pixel_status_def Let_def)
  have de: "delete m w url kw (Inr resp) =
           (Some (Inr resp), m,
            emit (pixel_events m (RGB 0 0 100) @ [HttpRequest DELETE url kw]
                  @ pixel_events m (Intensity 0)) w)"
    using assms(2) by (simp add: delete_def guard pixel_status_def Let_def)
  have po: "post m w url kw (Inr resp) =
           (Some (Inr resp), m,
            emit (pixel_events m (RGB 0 0 100) @ [HttpRequest POST url kw]) w)"
    using assms(2) by (simp add: post_def guard pixel_status_def Let_def)
  have ind: "indicator (snd (snd (get m w url kw (Inr resp)))) = Some (Intensity 0)
          \<and> indicator (snd (snd (put m w url kw (Inr resp)))) = Some (Intensity 0)
          \<and> indicator (snd (snd (patch m w url kw (Inr resp)))) = Some (Intensity 0)
          \<and> indicator (snd (snd (delete m w url kw (Inr resp)))) = Some (Intensity 0)
          \<and> indicator (snd (snd (post m w url kw (Inr resp)))) = Some (RGB 0 0 100)"
    if "statuspix m = Some d" "dev_truthy d" for d
    unfolding g pu pa de po
    by (simp add: indicator_emit shown_pixel_events [OF that])
  show ?thesis
    using g pu pa de po ind by blast
qed

theorem request_indicator_reset_except_post_witness:
  "ap_info associated_world \<noteq> None \<and> requests (connected_manager (Some rgb_led)) \<noteq> None
   \<and> trace (snd (snd (get (connected_manager (Some rgb_led)) associated_world
                        ''http://example.com/'' [] (Inr ''ok''))))
       = [PixelColor (RGB 0 0 100), HttpRequest GET ''http://example.com/'' [],
          PixelColor (Intensity 0)]
   \<and> trace (snd (snd (post (connected_manager (Some rgb_led)) associated_world
                        ''http://example.com/'' [] (Inr ''ok''))))
       = [PixelColor (RGB 0 0 100), HttpRequest POST ''http://example.com/'' []]
   \<and> indicator (snd (snd (get (connected_manager (Some rgb_led)) associated_world
                        ''http://example.com/'' [] (Inr ''ok'')))) = Some (Intensity 0)
   \<and> indicator (snd (snd (post (connected_manager (Some rgb_led)) associated_world
                        ''http://example.com/'' [] (Inr ''ok'')))) = Some (RGB 0 0 100)"
proof -
  let ?m = "connected_manager (Some rgb_led)"
  have h1: "ap_info associated_world \<noteq> None"
    by (simp add: associated_world_def)
  have h2: "requests ?m \<noteq> None"
    by (simp add: connected_manager_def)
  have pix: "statuspix ?m = Some rgb_led \<and> dev_truthy rgb_led"
    by (simp add: connected_manager_def manager_with_def rgb_led_def)
  have ev: "pixel_events ?m v = [PixelColor v]" for v
    by (simp add: pixel_events_def connected_manager_def manager_with_def rgb_led_def)
  have tr: "trace associated_world = []"
    by (simp add: associated_world_def idle_world_def)
  note inst = request_indicator_reset_except_post [OF h1 h2, of "''http://example.com/''" "[]" "''ok''"]
  from inst pix have ind:
    "indicator (snd (snd (get ?m associated_world ''http://example.com/'' [] (Inr ''ok'')))) = Some (Intensity 0)"
    "indicator (snd (snd (post ?m associated_world ''http://example.com/'' [] (Inr ''ok'')))) = Some (RGB 0 0 100)"
    by blast+
  from inst have
    "trace (snd (snd (get ?m associated_world ''http://example.com/'' [] (Inr ''ok''))))
       = [PixelColor (RGB 0 0 100), HttpRequest GET ''http://example.com/'' [], PixelColor (Intensity 0)]"
    "trace (snd (snd (post ?m associated_world ''http://example.com/'' [] (Inr ''ok''))))
       = [PixelColor (RGB 0 0 100), HttpRequest POST ''http://example.com/'' []]"
    by (simp_all add: ev tr)
  with h1 h2 ind show ?thesis by blast
qed

section \<open>Network time: decoding and failures\<close>

lemma words_be_nth:
  "4 * k + 3 < length bs \<Longrightarrow>
     words_be bs ! k = be_u32 (bs ! (4 * k)) (bs ! (4 * k + 1)) (bs ! (4 * k + 2)) (bs ! (4 * k + 3))"
proof (induction bs arbitrary: k rule: words_be.induct)
  case (1 b0 b1 b2 b3 bs)
  show ?case
  proof (cases k)
    case 0
    then show ?thesis by simp
  next
    case (Suc j)
    with "1.prems" have "4 * j + 3 < length bs" by simp
    from "1.IH" [OF this] Suc show ?thesis
      by (simp add: numeral_eq_Suc)
  qed
qed simp_all

lemma received_prefix:
  "length datagram \<le> 1024 \<Longrightarrow>
     take (min (length datagram) 1024)
       (take 1024 datagram @ replicate (1024 - length datagram) 0) = datagram"
  by simp

lemma ntp_after_guard:
  "ensure_connected m w = (Some (Inr ()), m1, w1) \<Longrightarrow> pool m1 \<noteq> None \<Longrightarrow>
     get_ntp_time localtime m w tz_offset dbg (Inr ()) (Inr datagram) =
       (let w4 = emit [SocketOpen, SetTimeout 30, SendTo ntp_request ''pool.ntp.org'' 123,
                       RecvFromInto 1024, SocketClose] w1
        in case unpack_12I (take (min (length datagram) 1024)
                   (take 1024 datagram @ replicate (1024 - length datagram) 0)) of
             Inl e \<Rightarrow> (Some (Inl e), m1, w4)
           | Inr unpacked \<Rightarrow>
               (case localtime (unpacked ! 10 - TIME1970 + tz_offset) of
                  Inl e \<Rightarrow> (Some (Inl e), m1, w4)
                | Inr now \<Rightarrow>
                    (Some (Inr ()), m1,
                     if dbg then emit [PrintTimeSet now] (w4\<lparr>rtc_datetime := Some now\<rparr>)
                     else w4\<lparr>rtc_datetime := Some now\<rparr>)))"
  by (auto simp: get_ntp_time_def Let_def split: sum.split)

lemma ntp_decoded:
  assumes "ensure_connected m w = (Some (Inr ()), m1, w1)" and "pool m1 \<noteq> None"
    and "length datagram = 48"
  shows "get_ntp_time localtime m w tz_offset dbg (Inr ()) (Inr datagram) =
       (case localtime (be_u32 (datagram ! 40) (datagram ! 41) (datagram ! 42) (datagram ! 43)
                        - 2208988800 + tz_offset) of
          Inl e \<Rightarrow>
            (Some (Inl e), m1,
             emit [SocketOpen, SetTimeout 30, SendTo ntp_request ''pool.ntp.org'' 123,
                   RecvFromInto 1024, SocketClose] w1)
        | Inr now \<Rightarrow>
            (Some (Inr ()), m1,
             (emit ([SocketOpen, SetTimeout 30, SendTo ntp_request ''pool.ntp.org'' 123,
                     RecvFromInto 1024, SocketClose]
                    @ (if dbg then [PrintTimeSet now] else [])) w1)
             \<lparr>rtc_datetime := Some now\<rparr>))"
proof -
  have whole: "take (min (length datagram) 1024)
       (take 1024 datagram @ replicate (1024 - length datagram) 0) = datagram"
    using assms(3) by (intro received_prefix) simp
  have "words_be datagram ! 10 =
          be_u32 (datagram ! (4 * 10)) (datagram ! (4 * 10 + 1)) (datagram ! (4 * 10 + 2))
            (datagram ! (4 * 10 + 3))"
    using assms(3) by (intro words_be_nth) simp
  then have word10: "words_be datagram ! 10 =
          be_u32 (datagram ! 40) (datagram ! 41) (datagram ! 42) (datagram ! 43)"
    by simp
  have unpacked: "unpack_12I datagram = Inr (words_be datagram)"
    using assms(3) by (simp add: unpack_12I_def)
  show ?thesis
    unfolding ntp_after_guard [OF assms(1,2)] whole unpacked Let_def sum.case word10
    by (simp add: TIME1970_def emit_def split: sum.split)
qed

text \<open>
  C6. For a reply of 48 bytes, \<open>get_ntp_time\<close> passes to \<open>time.localtime\<close> the
  big-endian 32-bit value in bytes 40 to 43 (word 10 of the twelve), less 2208988800, plus
  the offset. When \<open>time.localtime\<close> returns a calendar time for that second, the clock
  is set to it, the socket having been closed before; when it raises, as it does for a
  second outside the range the platform converts, the exception propagates and the clock
  is left as it was.
\<close>

theorem get_ntp_time_clock_follows_localtime:
  assumes "ensure_connected m w = (Some (Inr ()), m1, w1)" and "pool m1 \<noteq> None"
    and "length datagram = 48"
  shows "(\<forall>now. localtime (be_u32 (datagram ! 40) (datagram ! 41) (datagram ! 42) (datagram ! 43)
                          - 2208988800 + tz_offset) = Inr now \<longrightarrow>
            get_ntp_time localtime m w tz_offset dbg (Inr ()) (Inr datagram) =
              (Some (Inr ()), m1,
               (emit ([SocketOpen, SetTimeout 30, SendTo ntp_request ''pool.ntp.org'' 123,
                       RecvFromInto 1024, SocketClose]
                      @ (if dbg then [PrintTimeSet now] else [])) w1)
               \<lparr>rtc_datetime := Some now\<rparr>))
       \<and> (\<forall>e. localtime (be_u32 (datagram ! 40) (datagram ! 41) (datagram ! 42) (datagram ! 43)
                          - 2208988800 + tz_offset) = Inl e \<longrightarrow>
            get_ntp_time localtime m w tz_offset dbg (Inr ()) (Inr datagram) =
              (Some (Inl e), m1,
               emit [SocketOpen, SetTimeout 30, SendTo ntp_request ''pool.ntp.org'' 123,
                     RecvFromInto 1024, SocketClose] w1)
          \<and> rtc_datetime (emit [SocketOpen, SetTimeout 30, SendTo ntp_request ''pool.ntp.org'' 123,
                     RecvFromInto 1024, SocketClose] w1) = rtc_datetime w1)"
  unfolding ntp_decoded [OF assms] by simp

theorem get_ntp_time_clock_follows_localtime_witness:
  "ensure_connected (connected_manager None) associated_world
     = (Some (Inr ()), connected_manager None, associated_world)
   \<and> pool (connected_manager None) \<noteq> None
   \<and> length (replicate 40 (0 :: byte) @ [232, 254, 111, 128] @ replicate 4 0) = 48
   \<and> be_u32 232 254 111 128 = 2208988800 + 1700000000
   \<and> localtime_int64 1700000000 = Inr (Localtime 1700000000)
   \<and> get_ntp_time localtime_int64 (connected_manager None) associated_world 0 False (Inr ())
        (Inr (replicate 40 0 @ [232, 254, 111, 128] @ replicate 4 0))
       = (Some (Inr ()), connected_manager None,
          (emit [SocketOpen, SetTimeout 30, SendTo ntp_request ''pool.ntp.org'' 123,
                 RecvFromInto 1024, SocketClose] associated_world)
          \<lparr>rtc_datetime := Some (Localtime 1700000000)\<rparr>)
   \<and> localtime_int64 (- 2208988800 - 2 ^ 63) = Inl OverflowError
   \<and> get_ntp_time localtime_int64 (connected_manager None) associated_world (- (2 ^ 63)) False (Inr ())
        (Inr (replicate 48 0))
       = (Some (Inl OverflowError), connected_manager None,
          emit [SocketOpen, SetTimeout 30, SendTo ntp_request ''pool.ntp.org'' 123,
                RecvFromInto 1024, SocketClose] associated_world)"
proof -
  let ?d = "replicate 40 (0 :: byte) @ [232, 254, 111, 128] @ replicate 4 0"
  let ?z = "replicate 48 (0 :: byte)"
  have h1: "ensure_connected (connected_manager None) associated_world
     = (Some (Inr ()), connected_manager None, associated_world)"
    by (rule ensure_connected_associated) (simp add: associated_world_def)
  have h2: "pool (connected_manager None) \<noteq> None"
    by (simp add: connected_manager_def)
  have h3: "length ?d = 48" and h3z: "length ?z = 48"
    by simp_all
  have bytes: "?d ! 40 = 232" "?d ! 41 = 254" "?d ! 42 = 111" "?d ! 43 = 128"
    by (simp_all add: nth_append)
  have zeros: "?z ! 40 = 0" "?z ! 41 = 0" "?z ! 42 = 0" "?z ! 43 = 0"
    by simp_all
  have stamp: "be_u32 232 254 111 128 = 2208988800 + 1700000000" and zero: "be_u32 0 0 0 0 = 0"
    by (simp_all add: be_u32_def)
  have inside: "localtime_int64 1700000000 = Inr (Localtime 1700000000)"
    by (simp add: localtime_int64_def)
  have outside: "localtime_int64 (- 2208988800 - 2 ^ 63) = Inl OverflowError"
    by (simp add: localtime_int64_def)
  have arg1: "localtime_int64 (be_u32 (?d ! 40) (?d ! 41) (?d ! 42) (?d ! 43) - 2208988800 + 0)
                = Inr (Localtime 1700000000)"
    unfolding bytes stamp using inside by simp
  have arg2: "localtime_int64 (be_u32 (?z ! 40) (?z ! 41) (?z ! 42) (?z ! 43) - 2208988800 + - (2 ^ 63))
                = Inl OverflowError"
    unfolding zeros zero using outside by simp
  from get_ntp_time_clock_follows_localtime [OF h1 h2 h3, of localtime_int64 0 False] arg1
  have a: "get_ntp_time localtime_int64 (connected_manager None) associated_world 0 False (Inr ())
        (Inr ?d)
       = (Some (Inr ()), connected_manager None,
          (emit [SocketOpen, SetTimeout 30, SendTo ntp_request ''pool.ntp.org'' 123,
                 RecvFromInto 1024, SocketClose] associated_world)
          \<lparr>rtc_datetime := Some (Localtime 1700000000)\<rparr>)"
    by simp
  from get_ntp_time_clock_follows_localtime [OF h1 h2 h3z, of localtime_int64 "- (2 ^ 63)" False] arg2
  have b: "get_ntp_time localtime_int64 (connected_manager None) associated_world (- (2 ^ 63)) False
        (Inr ()) (Inr ?z)
       = (Some (Inl OverflowError), connected_manager None,
          emit [SocketOpen, SetTimeout 30, SendTo ntp_request ''pool.ntp.org'' 123,
                RecvFromInto 1024, SocketClose] associated_world)"
    by simp
  from h1 h2 h3 stamp inside a outside b show ?thesis by blast
qed

text \<open>
  The clock is not set for every reply and offset: with a reply whose word 10 is
  2208988800 + 1700000000 and the offset \<open>10 ^ 20\<close>, the second is beyond a 64-bit
  \<open>time_t\<close>, \<open>time.localtime\<close> raises and the clock stays unset.
\<close>

theorem get_ntp_time_sets_clock_counterexample:
  "length (replicate 40 (0 :: byte) @ [232, 254, 111, 128] @ replicate 4 0) = 48
   \<and> be_u32 232 254 111 128 = 2208988800 + 1700000000
   \<and> ap_info associated_world \<noteq> None \<and> pool (connected_manager None) \<noteq> None
   \<and> rtc_datetime associated_world = None
   \<and> fst (get_ntp_time localtime_int64 (connected_manager None) associated_world
             100000000000000000000 False (Inr ())
             (Inr (replicate 40 0 @ [232, 254, 111, 128] @ replicate 4 0)))
       = Some (Inl OverflowError)
   \<and> rtc_datetime (snd (snd (get_ntp_time localtime_int64 (connected_manager None) associated_world
             100000000000000000000 False (Inr ())
             (Inr (replicate 40 0 @ [232, 254, 111, 128] @ replicate 4 0)))))
       = None
   \<and> rtc_datetime (snd (snd (get_ntp_time localtime_int64 (connected_manager None) associated_world
             100000000000000000000 False (Inr ())
             (Inr (replicate 40 0 @ [232, 254, 111, 128] @ replicate 4 0)))))
       \<noteq> Some (Localtime (2208988800 + 1700000000 - 2208988800 + 100000000000000000000))"
proof -
  let ?d = "replicate 40 (0 :: byte) @ [232, 254, 111, 128] @ replicate 4 0"
  have h1: "ensure_connected (connected_manager None) associated_world
     = (Some (Inr ()), connected_manager None, associated_world)"
    by (rule ensure_connected_associated) (simp add: associated_world_def)
  have h2: "pool (connected_manager None) \<noteq> None"
    by (simp add: connected_manager_def)
  have h3: "length ?d = 48"
    by simp
  have bytes: "?d ! 40 = 232" "?d ! 41 = 254" "?d ! 42 = 111" "?d ! 43 = 128"
    by (simp_all add: nth_append)
  have stamp: "be_u32 232 254 111 128 = 2208988800 + 1700000000"
    by (simp add: be_u32_def)
  have clock: "rtc_datetime associated_world = None" and up: "ap_info associated_world \<noteq> None"
    by (simp_all add: associated_world_def idle_world_def)
  have raised: "localtime_int64 (be_u32 (?d ! 40) (?d ! 41) (?d ! 42) (?d ! 43) - 2208988800
                   + 100000000000000000000) = Inl OverflowError"
    unfolding bytes stamp by (simp add: localtime_int64_def)
  have run: "get_ntp_time localtime_int64 (connected_manager None) associated_world
             100000000000000000000 False (Inr ()) (Inr ?d)
       = (Some (Inl OverflowError), connected_manager None,
          emit [SocketOpen, SetTimeout 30, SendTo ntp_request ''pool.ntp.org'' 123,
                RecvFromInto 1024, SocketClose] associated_world)"
    unfolding ntp_decoded [OF h1 h2 h3] raised by simp
  show ?thesis
    unfolding run using h2 h3 stamp clock up by simp
qed

text \<open>
  C7. When the reply is shorter than 48 bytes, \<open>get_ntp_time\<close> raises the error of
  \<open>struct.unpack\<close>; when \<open>recvfrom_into\<close> raises, as it does when nothing arrives within
  the 30 seconds set on the socket, that exception propagates. In both cases the socket
  was closed last and the clock is as it was.
\<close>

theorem get_ntp_time_failure_keeps_clock:
  assumes "ap_info w \<noteq> None" and "pool m \<noteq> None"
  shows "(length datagram < 48 \<longrightarrow>
            get_ntp_time localtime m w tz_offset dbg (Inr ()) (Inr datagram) =
              (Some (Inl StructError), m,
               emit [SocketOpen, SetTimeout 30, SendTo ntp_request ''pool.ntp.org'' 123,
                     RecvFromInto 1024, SocketClose] w))
       \<and> get_ntp_time localtime m w tz_offset dbg (Inr ()) (Inl e) =
              (Some (Inl e), m,
               emit [SocketOpen, SetTimeout 30, SendTo ntp_request ''pool.ntp.org'' 123,
                     RecvFromInto 1024, SocketClose] w)
       \<and> rtc_datetime (emit [SocketOpen, SetTimeout 30, SendTo ntp_request ''pool.ntp.org'' 123,
                     RecvFromInto 1024, SocketClose] w) = rtc_datetime w
       \<and> last (trace (emit [SocketOpen, SetTimeout 30, SendTo ntp_request ''pool.ntp.org'' 123,
                     RecvFromInto 1024, SocketClose] w)) = SocketClose"
proof (intro conjI impI)
  assume short: "length datagram < 48"
  then have whole: "take (min (length datagram) 1024)
       (take 1024 datagram @ replicate (1024 - length datagram) 0) = datagram"
    by (intro received_prefix) simp
  have "unpack_12I datagram = Inl StructError"
    using short by (simp add: unpack_12I_def)
  then show "get_ntp_time localtime m w tz_offset dbg (Inr ()) (Inr datagram) =
              (Some (Inl StructError), m,
               emit [SocketOpen, SetTimeout 30, SendTo ntp_request ''pool.ntp.org'' 123,
                     RecvFromInto 1024, SocketClose] w)"
    unfolding ntp_after_guard [OF ensure_connected_associated [OF assms(1)] assms(2)] whole
    by (simp add: Let_def)
next
  show "get_ntp_time localtime m w tz_offset dbg (Inr ()) (Inl e) =
              (Some (Inl e), m,
               emit [SocketOpen, SetTimeout 30, SendTo ntp_request ''pool.ntp.org'' 123,
                     RecvFromInto 1024, SocketClose] w)"
    using assms by (auto simp: get_ntp_time_def ensure_connected_associated Let_def)
qed simp_all

theorem get_ntp_time_failure_keeps_clock_witness:
  "ap_info associated_world \<noteq> None \<and> pool (connected_manager None) \<noteq> None
   \<and> length (replicate 47 (0 :: byte)) < 48
   \<and> get_ntp_time localtime_int64 (connected_manager None) associated_world 0 False (Inr ()) (Inr (replicate 47 0))
       = (Some (Inl StructError), connected_manager None,
          emit [SocketOpen, SetTimeout 30, SendTo ntp_request ''pool.ntp.org'' 123,
                RecvFromInto 1024, SocketClose] associated_world)
   \<and> get_ntp_time localtime_int64 (connected_manager None) associated_world 0 False (Inr ()) (Inl TimeoutError)
       = (Some (Inl TimeoutError), connected_manager None,
          emit [SocketOpen, SetTimeout 30, SendTo ntp_request ''pool.ntp.org'' 123,
                RecvFromInto 1024, SocketClose] associated_world)
   \<and> rtc_datetime (emit [SocketOpen, SetTimeout 30, SendTo ntp_request ''pool.ntp.org'' 123,
                RecvFromInto 1024, SocketClose] associated_world) = None"
proof -
  have h1: "ap_info associated_world \<noteq> None"
    by (simp add: associated_world_def)
  have h2: "pool (connected_manager None) \<noteq> None"
    by (simp add: connected_manager_def)
  have h3: "length (replicate 47 (0 :: byte)) < 48"
    by simp
  have clock: "rtc_datetime associated_world = None"
    by (simp add: associated_world_def idle_world_def)
  show ?thesis
    using h1 h2 h3 clock
      get_ntp_time_failure_keeps_clock [OF h1 h2, of "replicate 47 0" localtime_int64 0 False TimeoutError]
    by simp
qed

section \<open>Shutting down: what the second call of the pool's result does\<close>

lemma deinit_without_pool:
  "pool m = None \<Longrightarrow> deinit m w closed = (Inr (), m, emit (pixel_events m (Intensity 0)) w)"
  by (simp add: deinit_def pixel_status_def)

text \<open>
  C3. With a socket pool, \<open>deinit\<close> writes 0 to the indicator and calls \<open>close()\<close> on the
  pool, and then raises: either \<open>close()\<close> raised, or its result is called and is not
  callable. The pool attribute is not reset, so every later \<open>deinit\<close> does the same.
\<close>

theorem deinit_raises_when_pool_exists:
  assumes "pool m \<noteq> None"
  shows "(\<exists>e. deinit m w closed = (Inl e, m, emit (pixel_events m (Intensity 0) @ [PoolClose]) w))
       \<and> deinit m w (Inr returned) =
           (Inl (TypeError ''object is not callable''), m,
            emit (pixel_events m (Intensity 0) @ [PoolClose]) w)"
  using assms
  by (cases closed) (auto simp: deinit_def call_value_def pixel_status_def Let_def)

lemma connect_normal_first_try:
  assumes "get_next_ap m = (Inr (s, p), m1)" and "ap_info w = None"
    and "connect_script w = Associates n # rest"
  shows "connect_normal m w =
           (Some (Inr ()), m1,
            emit ((if debug m1 then [PrintConnecting] else []) @ pixel_events m1 (RGB 100 0 0)
                   @ [RadioConnect s p] @ pixel_events m1 (RGB 0 100 0))
              (w\<lparr>connect_script := rest, ap_info := Some n\<rparr>))"
  using assms by (simp add: connect_normal_def connect_loop_associates)

theorem deinit_raises_when_pool_exists_witness:
  "fst (connect (manager_with (PStr ''A'') (PStr ''a'') None)
          (idle_world\<lparr>connect_script := [Associates home_network]\<rparr>)) = Some (Inr ())
   \<and> pool (fst (snd (connect (manager_with (PStr ''A'') (PStr ''a'') None)
          (idle_world\<lparr>connect_script := [Associates home_network]\<rparr>)))) = Some SocketPool
   \<and> fst (deinit
          (fst (snd (connect (manager_with (PStr ''A'') (PStr ''a'') None)
                  (idle_world\<lparr>connect_script := [Associates home_network]\<rparr>))))
          (snd (snd (connect (manager_with (PStr ''A'') (PStr ''a'') None)
                  (idle_world\<lparr>connect_script := [Associates home_network]\<rparr>))))
          (Inr PNone))
       = Inl (TypeError ''object is not callable'')"
proof -
  let ?m = "manager_with (PStr ''A'') (PStr ''a'') None"
  let ?w = "idle_world\<lparr>connect_script := [Associates home_network]\<rparr>"
  have fetch: "get_next_ap ?m = (Inr (PStr ''A'', PStr ''a''), ?m)"
    by (simp add: get_next_ap_def manager_with_def)
  have cn: "connect_normal ?m ?w =
           (Some (Inr ()), ?m,
            emit ((if debug ?m then [PrintConnecting] else []) @ pixel_events ?m (RGB 100 0 0)
                   @ [RadioConnect (PStr ''A'') (PStr ''a'')] @ pixel_events ?m (RGB 0 100 0))
              (?w\<lparr>connect_script := [], ap_info := Some home_network\<rparr>))"
    by (rule connect_normal_first_try [OF fetch]) (simp_all add: idle_world_def)
  have quiet: "debug ?m = False" "connection_type ?m = NORMAL"
    by (simp_all add: manager_with_def)
  have c: "fst (connect ?m ?w) = Some (Inr ())"
      "pool (fst (snd (connect ?m ?w))) = Some SocketPool"
    by (simp_all add: connect_def quiet cn)
  then have "pool (fst (snd (connect ?m ?w))) \<noteq> None"
    by simp
  from deinit_raises_when_pool_exists [OF this, of "snd (snd (connect ?m ?w))" "Inr PNone" PNone]
  have "fst (deinit (fst (snd (connect ?m ?w))) (snd (snd (connect ?m ?w))) (Inr PNone))
          = Inl (TypeError ''object is not callable'')"
    by simp
  with c show ?thesis by blast
qed

section \<open>Construction: the secrets\<close>

text \<open>
  C10. Without the key \<open>ssid\<close> in the secrets \<open>__init__\<close> raises \<open>KeyError\<close>, before
  anything is done. With it and without the key \<open>password\<close>, the manager is built with
  the password \<open>None\<close>; when the SSID is not a sequence, \<open>connect_normal\<close> then calls
  \<open>radio.connect\<close> with that SSID and \<open>None\<close>.
\<close>

theorem init_ssid_mandatory_password_optional:
  "(secrets ''ssid'' = None \<longrightarrow>
      init w secrets status_pixel conn_type dbg = (Inl (KeyError ''ssid''), w))
   \<and> (secrets ''ssid'' = Some s \<and> secrets ''password'' = None \<longrightarrow>
        (\<exists>m. init w secrets status_pixel conn_type dbg = (Inr m, pixel_status m (Intensity 0) w)
           \<and> ssid m = s \<and> password m = PNone \<and> ap_index m = 0
           \<and> (\<not> is_sequence s \<and> ap_info w1 = None \<and> connect_script w1 = Associates n # rest \<longrightarrow>
                (\<exists>w2. connect_normal m w1 = (Some (Inr ()), m, w2)
                    \<and> radio_attempts (trace w2) = radio_attempts (trace w1) @ [(s, PNone)]))))"
proof (intro conjI impI)
  assume "secrets ''ssid'' = None"
  then show "init w secrets status_pixel conn_type dbg = (Inl (KeyError ''ssid''), w)"
    by (simp add: init_def)
next
  assume h: "secrets ''ssid'' = Some s \<and> secrets ''password'' = None"
  obtain m where m: "fst (init w secrets status_pixel conn_type dbg) = Inr m"
    using h by (simp add: init_def Let_def)
  have built: "init w secrets status_pixel conn_type dbg = (Inr m, pixel_status m (Intensity 0) w)"
    using h m by (auto simp: init_def Let_def)
  have fields: "ssid m = s" "password m = PNone" "ap_index m = 0"
    using h m by (auto simp: init_def Let_def dict_get_def)
  have attempt: "\<exists>w2. connect_normal m w1 = (Some (Inr ()), m, w2)
                    \<and> radio_attempts (trace w2) = radio_attempts (trace w1) @ [(s, PNone)]"
    if "\<not> is_sequence s \<and> ap_info w1 = None \<and> connect_script w1 = Associates n # rest"
  proof -
    have "get_next_ap m = (Inr (s, PNone), m)"
      using that fields by (simp add: get_next_ap_def)
    from connect_normal_first_try [OF this, of w1 n rest] that
    show ?thesis by simp
  qed
  from built fields attempt
  show "\<exists>m. init w secrets status_pixel conn_type dbg = (Inr m, pixel_status m (Intensity 0) w)
           \<and> ssid m = s \<and> password m = PNone \<and> ap_index m = 0
           \<and> (\<not> is_sequence s \<and> ap_info w1 = None \<and> connect_script w1 = Associates n # rest \<longrightarrow>
                (\<exists>w2. connect_normal m w1 = (Some (Inr ()), m, w2)
                    \<and> radio_attempts (trace w2) = radio_attempts (trace w1) @ [(s, PNone)]))"
    by blast
qed

theorem init_ssid_mandatory_password_optional_witness:
  "init idle_world (Map.empty(''password'' \<mapsto> PStr ''secret'')) None NORMAL False
     = (Inl (KeyError ''ssid''), idle_world)
   \<and> (\<exists>m. init idle_world (Map.empty(''ssid'' \<mapsto> PStr ''cafe'')) None NORMAL False = (Inr m, idle_world)
        \<and> ssid m = PStr ''cafe'' \<and> password m = PNone
        \<and> (\<exists>w2. connect_normal m (idle_world\<lparr>connect_script := [Associates home_network]\<rparr>)
                   = (Some (Inr ()), m, w2)
              \<and> radio_attempts (trace w2) = [(PStr ''cafe'', PNone)]))"
proof -
  let ?w1 = "idle_world\<lparr>connect_script := [Associates home_network]\<rparr>"
  have a: "init idle_world (Map.empty(''password'' \<mapsto> PStr ''secret'')) None NORMAL False
     = (Inl (KeyError ''ssid''), idle_world)"
    using init_ssid_mandatory_password_optional
      [of "Map.empty(''password'' \<mapsto> PStr ''secret'')" idle_world None NORMAL False]
    by simp
  have pre: "\<not> is_sequence (PStr ''cafe'') \<and> ap_info ?w1 = None
      \<and> connect_script ?w1 = Associates home_network # []"
    by (simp add: idle_world_def)
  have sec: "(Map.empty(''ssid'' \<mapsto> PStr ''cafe'')) ''ssid'' = Some (PStr ''cafe'')
      \<and> (Map.empty(''ssid'' \<mapsto> PStr ''cafe'')) ''password'' = None"
    by simp
  from init_ssid_mandatory_password_optional
      [of "Map.empty(''ssid'' \<mapsto> PStr ''cafe'')" idle_world None NORMAL False "PStr ''cafe''"
          ?w1 home_network "[]"] sec pre
  obtain m w2 where m:
      "init idle_world (Map.empty(''ssid'' \<mapsto> PStr ''cafe'')) None NORMAL False
         = (Inr m, pixel_status m (Intensity 0) idle_world)"
      "ssid m = PStr ''cafe''" "password m = PNone"
      "connect_normal m ?w1 = (Some (Inr ()), m, w2)"
      "radio_attempts (trace w2) = radio_attempts (trace ?w1) @ [(PStr ''cafe'', PNone)]"
    by blast
  have "statuspix m = None"
    using m(1) by (auto simp: init_def Let_def)
  then have "pixel_status m (Intensity 0) idle_world = idle_world"
    by (simp add: pixel_status_def pixel_events_def emit_def idle_world_def)
  with m have "init idle_world (Map.empty(''ssid'' \<mapsto> PStr ''cafe'')) None NORMAL False = (Inr m, idle_world)"
      "radio_attempts (trace w2) = [(PStr ''cafe'', PNone)]"
    by (simp_all add: idle_world_def)
  with m a show ?thesis by blast
qed

section \<open>The concrete states are reachable\<close>

lemma init_manager_with:
  "init w (Map.empty(''ssid'' \<mapsto> s, ''password'' \<mapsto> p)) status_pixel NORMAL False
     = (Inr (manager_with s p status_pixel),
        pixel_status (manager_with s p status_pixel) (Intensity 0) w)"
  by (simp add: init_def manager_with_def dict_get_def Let_def)

lemma connect_connected_manager:
  "fst (snd (connect (manager_with (PStr ''A'') (PStr ''a'') status_pixel)
               (idle_world\<lparr>connect_script := [Associates home_network]\<rparr>)))
     = connected_manager status_pixel
   \<and> ap_info (snd (snd (connect (manager_with (PStr ''A'') (PStr ''a'') status_pixel)
               (idle_world\<lparr>connect_script := [Associates home_network]\<rparr>))))
     = ap_info associated_world"
proof -
  let ?m = "manager_with (PStr ''A'') (PStr ''a'') status_pixel"
  let ?w = "idle_world\<lparr>connect_script := [Associates home_network]\<rparr>"
  have fetch: "get_next_ap ?m = (Inr (PStr ''A'', PStr ''a''), ?m)"
    by (simp add: get_next_ap_def manager_with_def)
  have cn: "connect_normal ?m ?w =
           (Some (Inr ()), ?m,
            emit ((if debug ?m then [PrintConnecting] else []) @ pixel_events ?m (RGB 100 0 0)
                   @ [RadioConnect (PStr ''A'') (PStr ''a'')] @ pixel_events ?m (RGB 0 100 0))
              (?w\<lparr>connect_script := [], ap_info := Some home_network\<rparr>))"
    by (rule connect_normal_first_try [OF fetch]) (simp_all add: idle_world_def)
  have quiet: "debug ?m = False" "connection_type ?m = NORMAL"
    by (simp_all add: manager_with_def)
  show ?thesis
    by (simp add: connect_def quiet cn connected_manager_def associated_world_def)
qed

end
